theory Spec2Isabelle
  imports Main "HOL-Library.Sublist"
begin

section \<open>Python strings, lists and dictionaries\<close>

text \<open>
  A Python \<open>str\<close> is modelled as a \<open>string\<close>. The model of \<open>lower\<close> and \<open>strip\<close> is
  the one Python has on ASCII text; characters beyond ASCII are left alone by both.
\<close>

definition NL :: char where
  "NL = CHR 0x0A"

definition lower_char :: "char \<Rightarrow> char" where
  "lower_char c =
     (case map_of (zip ''ABCDEFGHIJKLMNOPQRSTUVWXYZ'' ''abcdefghijklmnopqrstuvwxyz'') c of
        Some d \<Rightarrow> d
      | None \<Rightarrow> c)"

definition lower :: "string \<Rightarrow> string" where
  "lower s = map lower_char s"

text \<open>\<open>sub in s\<close> on strings: \<open>sub\<close> occurs in \<open>s\<close> as a contiguous block.\<close>

fun str_in :: "string \<Rightarrow> string \<Rightarrow> bool" where
  "str_in sub [] = (sub = [])"
| "str_in sub (c # cs) = (prefix sub (c # cs) \<or> str_in sub cs)"

definition is_space :: "char \<Rightarrow> bool" where
  "is_space c \<longleftrightarrow>
     c \<in> set [CHR 0x09, CHR 0x0A, CHR 0x0B, CHR 0x0C, CHR 0x0D,
               CHR 0x1C, CHR 0x1D, CHR 0x1E, CHR 0x1F, CHR 0x20]"

definition strip :: "string \<Rightarrow> string" where
  "strip s = rev (dropWhile is_space (rev (dropWhile is_space s)))"

text \<open>\<open>s.split(sep)\<close> for a one-character separator: never the empty list.\<close>

fun split :: "char \<Rightarrow> string \<Rightarrow> string list" where
  "split sep [] = [[]]"
| "split sep (c # cs) =
     (if c = sep then [] # split sep cs
      else (case split sep cs of
              w # ws \<Rightarrow> (c # w) # ws
            | [] \<Rightarrow> [[c]]))"

text \<open>\<open>s.split(sep, 1)\<close>: at most one cut, at the first separator.\<close>

definition split1 :: "char \<Rightarrow> string \<Rightarrow> string list" where
  "split1 sep s =
     (if sep \<in> set s
      then [takeWhile (\<lambda>c. c \<noteq> sep) s, tl (dropWhile (\<lambda>c. c \<noteq> sep) s)]
      else [s])"

text \<open>
  The exceptions of the model are instances of \<open>Exception\<close>, which is what the two
  handlers of the program catch. \<open>ServiceError\<close> stands for whatever a collaborator raises
  (the model service, a collection, the mail transport), with its message.
\<close>

datatype exn =
    KeyError string
  | IndexError
  | ServiceError string

text \<open>\<open>str(e)\<close>, as the handlers print it.\<close>

fun str_exn :: "exn \<Rightarrow> string" where
  "str_exn (KeyError k) = [CHR 0x27] @ k @ [CHR 0x27]"
| "str_exn IndexError = ''list index out of range''"
| "str_exn (ServiceError m) = m"

text \<open>\<open>xs[i]\<close> for an index that is not negative.\<close>

definition list_getitem :: "'a list \<Rightarrow> nat \<Rightarrow> exn + 'a" where
  "list_getitem xs i = (if i < length xs then Inr (xs ! i) else Inl IndexError)"

text \<open>
  \<open>xs[start:]\<close>: a negative start counts from the end, and a start outside the list is
  clipped to it.
\<close>

definition slice_from :: "int \<Rightarrow> 'a list \<Rightarrow> 'a list" where
  "slice_from start xs =
     (let n = int (length xs);
          s = (if start < 0 then max (start + n) 0 else min start n)
      in drop (nat s) xs)"

text \<open>A \<open>dict\<close> with string keys keeps its keys in insertion order.\<close>

type_synonym 'v dict = "(string \<times> 'v) list"

definition dict_getitem :: "'v dict \<Rightarrow> string \<Rightarrow> exn + 'v" where
  "dict_getitem d k = (case map_of d k of None \<Rightarrow> Inl (KeyError k) | Some v \<Rightarrow> Inr v)"

definition dict_get :: "'v dict \<Rightarrow> string \<Rightarrow> 'v \<Rightarrow> 'v" where
  "dict_get d k dflt = (case map_of d k of None \<Rightarrow> dflt | Some v \<Rightarrow> v)"

fun dict_setitem :: "string \<Rightarrow> 'v \<Rightarrow> 'v dict \<Rightarrow> 'v dict" where
  "dict_setitem k v [] = [(k, v)]"
| "dict_setitem k v ((k', v') # d) =
     (if k' = k then (k, v) # d else (k', v') # dict_setitem k v d)"

section \<open>The application's data, configuration and collaborators\<close>

text \<open>A document of the collection \<open>chat_logs\<close>, as \<open>store_chat\<close> writes it.\<close>

record chat_turn =
  turn_session_id :: string
  turn_role :: string
  turn_message :: string
  turn_timestamp :: nat

datatype pyval = Str string | DateTime nat | Bool bool

record email =
  mail_subject :: string
  mail_from :: string
  mail_to :: string
  mail_body :: string

text \<open>
  The module \<open>config\<close> is not part of the sources at hand: the keys of \<open>app.config\<close>
  that the handler reads are the fields of this record.
\<close>

record config =
  MAX_CHAT_HISTORY :: int
  CONTACT_PROMPT :: string
  EMAIL_USER :: string
  RECIPIENT_EMAIL :: string

text \<open>
  The collaborators outside the program: the model service, the two collections, the
  mail transport and the clock. A call of the model service returns its text or raises;
  a store or mail operation raises the exception its field gives, if any. \<open>utcnow n\<close> is
  what the clock shows when it is read for the \<open>n\<close>-th time.
\<close>

record env =
  generate_content :: "string \<Rightarrow> exn + string"
  chats_insert_error :: "chat_turn \<Rightarrow> exn option"
  chats_find_error :: "string \<Rightarrow> exn option"
  leads_insert_error :: "pyval dict \<Rightarrow> exn option"
  smtp_error :: "email \<Rightarrow> exn option"
  utcnow :: "nat \<Rightarrow> nat"
  str_datetime :: "nat \<Rightarrow> string"

text \<open>
  The calls the handler makes, in order: \<open>trace\<close> is a ghost field of the state that
  records what the functions were called with. The steps \<open>record_call\<close> in the functions
  below write it; they have no counterpart in the source and change nothing else.
\<close>

datatype event =
    Call_generate_response string "string dict list"
  | Call_generate_content string
  | Call_extract_contact_info string
  | Call_send_contact_email "string dict"

record world =
  chat_logs :: "chat_turn list"
  leads :: "pyval dict list"
  sent_mail :: "email list"
  stdout :: "string list"
  clock_reads :: nat
  trace :: "event list"

type_synonym 'a prog = "world \<Rightarrow> (exn + 'a) \<times> world"

definition and_then :: "'a prog \<Rightarrow> ('a \<Rightarrow> 'b prog) \<Rightarrow> 'b prog" where
  "and_then m f w = (case m w of (Inl e, w') \<Rightarrow> (Inl e, w') | (Inr x, w') \<Rightarrow> f x w')"

definition try_except :: "'a prog \<Rightarrow> (exn \<Rightarrow> 'a prog) \<Rightarrow> 'a prog" where
  "try_except m h w = (case m w of (Inl e, w') \<Rightarrow> h e w' | (Inr x, w') \<Rightarrow> (Inr x, w'))"

definition return :: "'a \<Rightarrow> 'a prog" where
  "return x w = (Inr x, w)"

definition lift :: "exn + 'a \<Rightarrow> 'a prog" where
  "lift r w = (r, w)"

definition print :: "string \<Rightarrow> unit prog" where
  "print s w = (Inr (), w\<lparr>stdout := stdout w @ [s]\<rparr>)"

definition record_call :: "event \<Rightarrow> unit prog" where
  "record_call ev w = (Inr (), w\<lparr>trace := trace w @ [ev]\<rparr>)"

definition datetime_utcnow :: "env \<Rightarrow> nat prog" where
  "datetime_utcnow E w = (Inr (utcnow E (clock_reads w)), w\<lparr>clock_reads := Suc (clock_reads w)\<rparr>)"

section \<open>The functions of app.py\<close>

definition SYSTEM_PROMPT :: string where
  "SYSTEM_PROMPT =
     [NL] @ ''You are a customer service chatbot for Sattva Tech company. Your role is to:'' @
     [NL] @ ''1. Answer questions about the company, its services, and job vacancies'' @
     [NL] @ ''2. Politely decline to answer questions not related to the company'' @
     [NL] @ ''3. Ask for contact information when appropriate'' @
     [NL] @
     [NL] @ ''Guidelines:'' @
     [NL] @ ''- Keep responses professional and friendly'' @
     [NL] @ ''- For off-topic questions, respond with the configured OFF_TOPIC_RESPONSE'' @
     [NL] @ ''- When appropriate, ask the configured CONTACT_PROMPT'' @
     [NL] @ ''- Never make up information'' @
     [NL]"

definition FALLBACK :: string where
  "FALLBACK = ''I'' @ [CHR 0x27] @ ''m having trouble processing your request. Please try again later.''"

definition THANK_YOU :: string where
  "THANK_YOU = [NL, NL] @ ''Thank you for your contact information! Our team will reach out to you soon.''"

text \<open>
  Lines 51 to 53 of \<open>generate_response\<close>: the loop over \<open>chat_history[-MAX_CHAT_HISTORY:]\<close>
  that appends one line per message to the context.
\<close>

fun render_history :: "string dict list \<Rightarrow> string \<Rightarrow> exn + string" where
  "render_history [] context = Inr context"
| "render_history (msg # rest) context =
     (case dict_getitem msg ''role'' of
        Inl e \<Rightarrow> Inl e
      | Inr r \<Rightarrow>
          (case dict_getitem msg ''content'' of
             Inl e \<Rightarrow> Inl e
           | Inr c \<Rightarrow> render_history rest (context @ r @ '': '' @ c @ [NL])))"

definition build_context :: "config \<Rightarrow> string dict list \<Rightarrow> exn + string" where
  "build_context cfg chat_history =
     render_history (slice_from (- MAX_CHAT_HISTORY cfg) chat_history)
       (SYSTEM_PROMPT @ [NL, NL] @ ''Chat history:'' @ [NL])"

definition full_prompt :: "string \<Rightarrow> string \<Rightarrow> string" where
  "full_prompt context prompt =
     context @ [NL] @ ''User: '' @ prompt @ [NL] @ ''Assistant:''"

definition generate_response :: "config \<Rightarrow> env \<Rightarrow> string \<Rightarrow> string dict list \<Rightarrow> string prog" where
  "generate_response cfg E prompt chat_history =
     and_then (record_call (Call_generate_response prompt chat_history)) (\<lambda>_.
     try_except
       (and_then (lift (build_context cfg chat_history)) (\<lambda>context.
        and_then (record_call (Call_generate_content (full_prompt context prompt))) (\<lambda>_.
        lift (generate_content E (full_prompt context prompt)))))
       (\<lambda>e.
        and_then (print (''Error generating response: '' @ str_exn e)) (\<lambda>_.
        return FALLBACK)))"

text \<open>The dictionary \<open>chat_data\<close> that \<open>store_chat\<close> builds and inserts.\<close>

definition chat_data :: "string \<Rightarrow> string \<Rightarrow> string \<Rightarrow> nat \<Rightarrow> chat_turn" where
  "chat_data session_id role message now =
     \<lparr>turn_session_id = session_id, turn_role = role,
      turn_message = message, turn_timestamp = now\<rparr>"

definition chats_insert_one :: "env \<Rightarrow> chat_turn \<Rightarrow> unit prog" where
  "chats_insert_one E doc w =
     (case chats_insert_error E doc of
        Some e \<Rightarrow> (Inl e, w)
      | None \<Rightarrow> (Inr (), w\<lparr>chat_logs := chat_logs w @ [doc]\<rparr>))"

definition store_chat :: "env \<Rightarrow> string \<Rightarrow> string \<Rightarrow> string \<Rightarrow> unit prog" where
  "store_chat E session_id role message =
     and_then (datetime_utcnow E) (\<lambda>now.
     chats_insert_one E (chat_data session_id role message now))"

text \<open>
  \<open>chats_collection.find({"session_id": session_id}, {"_id": 0, "role": 1, "message": 1})\<close>
  sorted by timestamp, as a list: each document comes back with the two projected keys
  only. Documents with equal timestamps keep their order of insertion.
\<close>

definition projected :: "chat_turn \<Rightarrow> string dict" where
  "projected t = [(''role'', turn_role t), (''message'', turn_message t)]"

definition chats_find :: "env \<Rightarrow> string \<Rightarrow> string dict list prog" where
  "chats_find E session_id w =
     (case chats_find_error E session_id of
        Some e \<Rightarrow> (Inl e, w)
      | None \<Rightarrow>
          (Inr (map projected
                 (sort_key turn_timestamp
                    (filter (\<lambda>t. turn_session_id t = session_id) (chat_logs w)))), w))"

text \<open>The \<open>MIMEText\<close> message of \<open>send_contact_email\<close>, with its headers.\<close>

definition contact_message :: "config \<Rightarrow> env \<Rightarrow> string dict \<Rightarrow> nat \<Rightarrow> email" where
  "contact_message cfg E contact_info now =
     \<lparr>mail_subject = ''New Contact Request from Chatbot'',
      mail_from = EMAIL_USER cfg,
      mail_to = RECIPIENT_EMAIL cfg,
      mail_body =
        ''New contact request:'' @ [NL, NL] @
        ''Name: '' @ dict_get contact_info ''name'' ''Not provided'' @ [NL] @
        ''Email: '' @ dict_get contact_info ''email'' ''Not provided'' @ [NL] @
        ''Phone: '' @ dict_get contact_info ''phone'' ''Not provided'' @ [NL] @
        ''Interest: '' @ dict_get contact_info ''interest'' ''General inquiry'' @ [NL, NL] @
        ''Timestamp: '' @ str_datetime E now\<rparr>"

definition smtp_send :: "env \<Rightarrow> email \<Rightarrow> unit prog" where
  "smtp_send E msg w =
     (case smtp_error E msg of
        Some e \<Rightarrow> (Inl e, w)
      | None \<Rightarrow> (Inr (), w\<lparr>sent_mail := sent_mail w @ [msg]\<rparr>))"

definition send_contact_email :: "config \<Rightarrow> env \<Rightarrow> string dict \<Rightarrow> unit prog" where
  "send_contact_email cfg E contact_info =
     and_then (record_call (Call_send_contact_email contact_info)) (\<lambda>_.
     try_except
       (and_then (datetime_utcnow E) (\<lambda>now.
        smtp_send E (contact_message cfg E contact_info now)))
       (\<lambda>e. print (''Error sending email: '' @ str_exn e)))"

text \<open>
  The dictionary \<open>lead_data\<close> of \<open>store_lead\<close>: the entries of \<open>contact_info\<close>, then
  the timestamp and the flag.
\<close>

definition lead_data :: "string dict \<Rightarrow> nat \<Rightarrow> pyval dict" where
  "lead_data contact_info now =
     dict_setitem ''followed_up'' (Bool False)
       (dict_setitem ''timestamp'' (DateTime now)
          (map (\<lambda>(k, v). (k, Str v)) contact_info))"

definition leads_insert_one :: "env \<Rightarrow> pyval dict \<Rightarrow> unit prog" where
  "leads_insert_one E doc w =
     (case leads_insert_error E doc of
        Some e \<Rightarrow> (Inl e, w)
      | None \<Rightarrow> (Inr (), w\<lparr>leads := leads w @ [doc]\<rparr>))"

definition store_lead :: "config \<Rightarrow> env \<Rightarrow> string dict \<Rightarrow> unit prog" where
  "store_lead cfg E contact_info =
     and_then (datetime_utcnow E) (\<lambda>now.
     and_then (leads_insert_one E (lead_data contact_info now)) (\<lambda>_.
     send_contact_email cfg E contact_info))"

text \<open>The body of the loop of \<open>extract_contact_info\<close>, for one line.\<close>

definition extract_line :: "string \<Rightarrow> string dict \<Rightarrow> exn + string dict" where
  "extract_line line info =
     (if str_in ''name:'' (lower line) then
        (case list_getitem (split1 (CHR '':'') line) 1 of
           Inl e \<Rightarrow> Inl e
         | Inr v \<Rightarrow> Inr (dict_setitem ''name'' (strip v) info))
      else if str_in ''email:'' (lower line) then
        (case list_getitem (split1 (CHR '':'') line) 1 of
           Inl e \<Rightarrow> Inl e
         | Inr v \<Rightarrow> Inr (dict_setitem ''email'' (strip v) info))
      else if str_in ''phone:'' (lower line) then
        (case list_getitem (split1 (CHR '':'') line) 1 of
           Inl e \<Rightarrow> Inl e
         | Inr v \<Rightarrow> Inr (dict_setitem ''phone'' (strip v) info))
      else Inr info)"

fun extract_lines :: "string list \<Rightarrow> string dict \<Rightarrow> exn + string dict" where
  "extract_lines [] info = Inr info"
| "extract_lines (line # rest) info =
     (case extract_line line info of
        Inl e \<Rightarrow> Inl e
      | Inr info' \<Rightarrow> extract_lines rest info')"

definition extract_contact_info :: "string \<Rightarrow> exn + string dict" where
  "extract_contact_info message = extract_lines (split NL message) []"

text \<open>The JSON body of a request: either key may be absent.\<close>

record request =
  req_session_id :: "string option"
  req_message :: "string option"

definition request_session_id :: "request \<Rightarrow> string" where
  "request_session_id data =
     (case req_session_id data of None \<Rightarrow> ''default_session'' | Some s \<Rightarrow> s)"

definition request_message :: "request \<Rightarrow> string" where
  "request_message data = (case req_message data of None \<Rightarrow> [] | Some m \<Rightarrow> m)"

text \<open>
  Lines 148 to 157 of \<open>chat\<close>: the check for contact details in the user's message,
  and the value the handler returns.
\<close>

definition capture_lead ::
  "config \<Rightarrow> env \<Rightarrow> string \<Rightarrow> string \<Rightarrow> string \<Rightarrow> bool \<Rightarrow> string prog" where
  "capture_lead cfg E session_id message response contact_requested =
     (if contact_requested \<and>
         list_ex (\<lambda>keyword. str_in keyword (lower message)) [''name'', ''email'', ''phone'']
      then
        and_then (record_call (Call_extract_contact_info message)) (\<lambda>_.
        and_then (lift (extract_contact_info message)) (\<lambda>contact_info.
        if contact_info \<noteq> [] then
          (let contact_info1 = dict_setitem ''session_id'' session_id contact_info;
               contact_info2 = dict_setitem ''interest'' ''From chat'' contact_info1
           in and_then (store_lead cfg E contact_info2) (\<lambda>_.
              return (response @ THANK_YOU)))
        else return response))
      else return response)"

text \<open>Lines 126 to 146 of \<open>chat\<close>, followed by the lines above.\<close>

definition chat :: "config \<Rightarrow> env \<Rightarrow> request \<Rightarrow> string prog" where
  "chat cfg E data =
     (let session_id = request_session_id data;
          message = request_message data
      in
        and_then (store_chat E session_id ''user'' message) (\<lambda>_.
        and_then (chats_find E session_id) (\<lambda>chat_history.
        and_then (generate_response cfg E message chat_history) (\<lambda>response.
        (let contact_requested = str_in (lower (CONTACT_PROMPT cfg)) (lower response)
         in
           and_then (store_chat E session_id ''assistant'' response) (\<lambda>_.
           capture_lead cfg E session_id message response contact_requested))))))"

text \<open>The calls made by one run of the handler from the state \<open>w\<close>.\<close>

definition calls_of :: "config \<Rightarrow> env \<Rightarrow> request \<Rightarrow> world \<Rightarrow> event list" where
  "calls_of cfg E data w = drop (length (trace w)) (trace (snd (chat cfg E data w)))"

text \<open>The dictionaries that \<open>send_contact_email\<close> was called with, in order.\<close>

fun notified :: "event list \<Rightarrow> string dict list" where
  "notified [] = []"
| "notified (Call_send_contact_email contact_info # evs) = contact_info # notified evs"
| "notified (_ # evs) = notified evs"

text \<open>The messages that \<open>extract_contact_info\<close> was called with, in order.\<close>

fun extractions :: "event list \<Rightarrow> string list" where
  "extractions [] = []"
| "extractions (Call_extract_contact_info message # evs) = message # extractions evs"
| "extractions (_ # evs) = extractions evs"

section \<open>The extractor as the specification words it\<close>

text \<open>
  Per line, the first of the markers \<open>name:\<close>, \<open>email:\<close>, \<open>phone:\<close> (in that order)
  that occurs in the line, compared without regard to case, names the field; the field
  gets the text after the first colon of the line, trimmed.
\<close>

definition spec_field :: "string \<Rightarrow> string option" where
  "spec_field line =
     find (\<lambda>field. str_in (field @ '':'') (lower line)) [''name'', ''email'', ''phone'']"

definition spec_value :: "string \<Rightarrow> string" where
  "spec_value line = strip (drop (Suc (length (takeWhile (\<lambda>c. c \<noteq> CHR '':'') line))) line)"

definition spec_extract :: "string \<Rightarrow> string dict" where
  "spec_extract message =
     foldl (\<lambda>info line.
              case spec_field line of
                None \<Rightarrow> info
              | Some field \<Rightarrow> dict_setitem field (spec_value line) info)
       [] (split NL message)"

section \<open>Example inputs\<close>

text \<open>
  A configuration whose contact phrase occurs in the fallback reply, so that a request
  answered with the fallback passes the check for the phrase.
\<close>

definition ex_config :: config where
  "ex_config =
     \<lparr>MAX_CHAT_HISTORY = 10,
      CONTACT_PROMPT = ''Please try again later.'',
      EMAIL_USER = ''bot@sattva.example'',
      RECIPIENT_EMAIL = ''sales@sattva.example''\<rparr>"

definition ex_env :: env where
  "ex_env =
     \<lparr>generate_content = (\<lambda>p. Inr ''Hello''),
      chats_insert_error = (\<lambda>doc. None),
      chats_find_error = (\<lambda>session_id. None),
      leads_insert_error = (\<lambda>doc. None),
      smtp_error = (\<lambda>msg. None),
      utcnow = (\<lambda>n. n),
      str_datetime = (\<lambda>t. ''2024-01-01 00:00:00'')\<rparr>"

definition ex_world :: world where
  "ex_world =
     \<lparr>chat_logs = [], leads = [], sent_mail = [], stdout = [], clock_reads = 0, trace = []\<rparr>"

definition ex_request :: "string \<Rightarrow> string \<Rightarrow> request" where
  "ex_request session_id message =
     \<lparr>req_session_id = Some session_id, req_message = Some message\<rparr>"

definition ex_failure :: exn where
  "ex_failure = ServiceError ''service unavailable''"

text \<open>
  The states that a request of the session \<open>s1\<close> goes through when it starts in
  \<open>ex_world\<close> with the collaborators \<open>ex_env\<close>: after the user's turn is stored, after
  the reply is generated, and after the reply is stored.
\<close>

definition ex_history :: "string \<Rightarrow> string dict list" where
  "ex_history message = [[(''role'', ''user''), (''message'', message)]]"

definition ex_world1 :: "string \<Rightarrow> world" where
  "ex_world1 message = snd (store_chat ex_env ''s1'' ''user'' message ex_world)"

definition ex_world3 :: "string \<Rightarrow> world" where
  "ex_world3 message =
     snd (generate_response ex_config ex_env message (ex_history message) (ex_world1 message))"

definition ex_world4 :: "string \<Rightarrow> world" where
  "ex_world4 message = snd (store_chat ex_env ''s1'' ''assistant'' FALLBACK (ex_world3 message))"

text \<open>
  Collaborators of which one fails: the history store on the reply, the history store on
  every write, the lead store, the mail transport.
\<close>

definition ex_env_reply_not_stored :: env where
  "ex_env_reply_not_stored =
     ex_env\<lparr>chats_insert_error :=
       (\<lambda>doc. if turn_role doc = ''assistant'' then Some ex_failure else None)\<rparr>"

definition ex_env_history_down :: env where
  "ex_env_history_down = ex_env\<lparr>chats_insert_error := (\<lambda>doc. Some ex_failure)\<rparr>"

definition ex_env_leads_down :: env where
  "ex_env_leads_down = ex_env\<lparr>leads_insert_error := (\<lambda>doc. Some ex_failure)\<rparr>"

definition ex_env_mail_down :: env where
  "ex_env_mail_down = ex_env\<lparr>smtp_error := (\<lambda>msg. Some ex_failure)\<rparr>"

definition ex_message :: string where
  "ex_message = ''name: Bob'' @ [NL] @ ''email: bob@x.com''"

definition ex_contact :: "string dict" where
  "ex_contact =
     [(''name'', ''Bob''), (''email'', ''bob@x.com''),
      (''session_id'', ''s1''), (''interest'', ''From chat'')]"

section \<open>Strings and lines\<close>

lemma lower_char_colon: "lower_char c = CHR '':'' \<longleftrightarrow> c = CHR '':''"
  by (auto simp: lower_char_def split: option.splits if_splits)

lemma colon_lower_char: "CHR '':'' = lower_char c \<longleftrightarrow> c = CHR '':''"
  using lower_char_colon [of c] by auto

lemma colon_in_lower: "CHR '':'' \<in> set (lower s) \<longleftrightarrow> CHR '':'' \<in> set s"
  unfolding lower_def by (induction s) (auto simp: lower_char_colon colon_lower_char)

lemma str_in_iff: "str_in sub s \<longleftrightarrow> (\<exists>ps ss. s = ps @ sub @ ss)"
proof (induction s)
  case Nil
  then show ?case by auto
next
  case (Cons c cs)
  show ?case
  proof
    assume "str_in sub (c # cs)"
    then consider "prefix sub (c # cs)" | "str_in sub cs" by auto
    then show "\<exists>ps ss. c # cs = ps @ sub @ ss"
    proof cases
      case 1
      then obtain ss where "c # cs = sub @ ss" by (auto simp: prefix_def)
      then have "c # cs = [] @ sub @ ss" by simp
      then show ?thesis by blast
    next
      case 2
      with Cons.IH obtain ps ss where "cs = ps @ sub @ ss" by blast
      then have "c # cs = (c # ps) @ sub @ ss" by simp
      then show ?thesis by blast
    qed
  next
    assume "\<exists>ps ss. c # cs = ps @ sub @ ss"
    then obtain ps ss where eq: "c # cs = ps @ sub @ ss" by blast
    show "str_in sub (c # cs)"
    proof (cases ps)
      case Nil
      with eq have "prefix sub (c # cs)" by (simp add: prefix_def)
      then show ?thesis by simp
    next
      case (Cons p ps')
      with eq have "cs = ps' @ sub @ ss" by simp
      with Cons.IH have "str_in sub cs" by blast
      then show ?thesis by simp
    qed
  qed
qed

lemma str_in_set: "str_in sub s \<Longrightarrow> set sub \<subseteq> set s"
  by (auto simp: str_in_iff)

lemma split_nonempty: "split sep s \<noteq> []"
  by (induction s) (auto split: list.splits)

lemma split_first_prefix: "split sep s = w # ws \<Longrightarrow> \<exists>ss. s = w @ ss"
proof (induction s arbitrary: w ws)
  case Nil
  then show ?case by simp
next
  case (Cons c cs)
  show ?case
  proof (cases "c = sep")
    case True
    with Cons.prems have "w = []" by simp
    then show ?thesis by simp
  next
    case False
    obtain v vs where v: "split sep cs = v # vs"
      using split_nonempty [of sep cs] by (cases "split sep cs") auto
    with False Cons.prems have w: "w = c # v" by simp
    from Cons.IH [OF v] obtain ss where "cs = v @ ss" by blast
    with w have "c # cs = w @ ss" by simp
    then show ?thesis by blast
  qed
qed

lemma split_infix: "line \<in> set (split sep s) \<Longrightarrow> \<exists>ps ss. s = ps @ line @ ss"
proof (induction s arbitrary: line)
  case Nil
  then show ?case by simp
next
  case (Cons c cs)
  obtain v vs where v: "split sep cs = v # vs"
    using split_nonempty [of sep cs] by (cases "split sep cs") auto
  have later: "\<exists>ps ss. c # cs = ps @ l @ ss" if "l \<in> set (split sep cs)" for l
  proof -
    from Cons.IH [OF that] obtain ps ss where "cs = ps @ l @ ss" by blast
    then have "c # cs = (c # ps) @ l @ ss" by simp
    then show ?thesis by blast
  qed
  show ?case
  proof (cases "c = sep")
    case True
    with Cons.prems have "line = [] \<or> line \<in> set (split sep cs)" by simp
    then show ?thesis
    proof
      assume "line = []"
      then have "c # cs = [] @ line @ (c # cs)" by simp
      then show ?thesis by blast
    next
      assume "line \<in> set (split sep cs)"
      then show ?thesis by (rule later)
    qed
  next
    case False
    with v Cons.prems have "line = c # v \<or> line \<in> set vs" by simp
    then show ?thesis
    proof
      assume l: "line = c # v"
      from split_first_prefix [OF v] obtain ss where "cs = v @ ss" by blast
      with l have "c # cs = [] @ line @ ss" by simp
      then show ?thesis by blast
    next
      assume "line \<in> set vs"
      with v have "line \<in> set (split sep cs)" by simp
      then show ?thesis by (rule later)
    qed
  qed
qed

lemma lower_append: "lower (a @ b) = lower a @ lower b"
  by (simp add: lower_def)

lemma str_in_line: 
  assumes "line \<in> set (split sep s)" and "str_in sub (lower line)"
  shows "str_in sub (lower s)"
proof -
  from split_infix [OF assms(1)] obtain ps ss where s: "s = ps @ line @ ss" by blast
  from assms(2) obtain qs rs where "lower line = qs @ sub @ rs" by (auto simp: str_in_iff)
  with s have "lower s = (lower ps @ qs) @ sub @ (rs @ lower ss)" by (simp add: lower_append)
  then show ?thesis unfolding str_in_iff by blast
qed


section \<open>The extractor never raises\<close>

text \<open>
  A line in which a marker occurs has a colon, so the index \<open>[1]\<close> after
  \<open>split(':', 1)\<close> is in range: each line does what the specification's wording says.
\<close>

lemma list_getitem_split1:
  "CHR '':'' \<in> set line \<Longrightarrow>
   list_getitem (split1 (CHR '':'') line) 1 = Inr (tl (dropWhile (\<lambda>c. c \<noteq> CHR '':'') line))"
  by (simp add: list_getitem_def split1_def)

lemma marker_colon:
  assumes "str_in m (lower line)" and "CHR '':'' \<in> set m"
  shows "CHR '':'' \<in> set line"
proof -
  from assms have "CHR '':'' \<in> set (lower line)" using str_in_set by blast
  then show ?thesis by (simp add: colon_in_lower)
qed

lemma after_first_colon:
  "tl (dropWhile (\<lambda>c. c \<noteq> sep) s) = drop (Suc (length (takeWhile (\<lambda>c. c \<noteq> sep) s))) s"
  by (induction s) auto

lemma getitem_marked_line:
  assumes "str_in m (lower line)" and "CHR '':'' \<in> set m"
  shows "list_getitem (split1 (CHR '':'') line) 1 = Inr (tl (dropWhile (\<lambda>c. c \<noteq> CHR '':'') line))"
  using marker_colon [OF assms] by (rule list_getitem_split1)

lemma extract_line_eq:
  "extract_line line info =
     Inr (case spec_field line of
            None \<Rightarrow> info
          | Some field \<Rightarrow> dict_setitem field (spec_value line) info)"
proof -
  note g = getitem_marked_line [of _ line]
  show ?thesis
    using g [of "''name:''"] g [of "''email:''"] g [of "''phone:''"]
    by (simp add: extract_line_def spec_field_def spec_value_def after_first_colon)
qed

lemma extract_lines_eq:
  "extract_lines ls info =
     Inr (foldl (\<lambda>info line.
                   case spec_field line of
                     None \<Rightarrow> info
                   | Some field \<Rightarrow> dict_setitem field (spec_value line) info) info ls)"
  by (induction ls arbitrary: info) (simp_all add: extract_line_eq)

section \<open>What each function computes\<close>

lemma store_chat_run:
  "store_chat E sid role m w =
     (case chats_insert_error E (chat_data sid role m (utcnow E (clock_reads w))) of
        Some e \<Rightarrow> (Inl e, w\<lparr>clock_reads := Suc (clock_reads w)\<rparr>)
      | None \<Rightarrow>
          (Inr (), w\<lparr>clock_reads := Suc (clock_reads w),
                       chat_logs := chat_logs w @ [chat_data sid role m (utcnow E (clock_reads w))]\<rparr>))"
  by (simp add: store_chat_def and_then_def datetime_utcnow_def chats_insert_one_def
      split: option.splits)

lemma generate_response_run:
  "generate_response cfg E prompt chat_history w =
     (case build_context cfg chat_history of
        Inl e \<Rightarrow>
          (Inr FALLBACK,
           w\<lparr>trace := trace w @ [Call_generate_response prompt chat_history],
             stdout := stdout w @ [''Error generating response: '' @ str_exn e]\<rparr>)
      | Inr context \<Rightarrow>
          (case generate_content E (full_prompt context prompt) of
             Inl e \<Rightarrow>
               (Inr FALLBACK,
                w\<lparr>trace := trace w @ [Call_generate_response prompt chat_history,
                                        Call_generate_content (full_prompt context prompt)],
                  stdout := stdout w @ [''Error generating response: '' @ str_exn e]\<rparr>)
           | Inr text \<Rightarrow>
               (Inr text,
                w\<lparr>trace := trace w @ [Call_generate_response prompt chat_history,
                                        Call_generate_content (full_prompt context prompt)]\<rparr>)))"
  by (simp add: generate_response_def try_except_def and_then_def lift_def record_call_def
      print_def return_def split: sum.splits)

lemma send_contact_email_run:
  "send_contact_email cfg E ci w =
     (case smtp_error E (contact_message cfg E ci (utcnow E (clock_reads w))) of
        Some e \<Rightarrow>
          (Inr (), w\<lparr>trace := trace w @ [Call_send_contact_email ci],
                      clock_reads := Suc (clock_reads w),
                      stdout := stdout w @ [''Error sending email: '' @ str_exn e]\<rparr>)
      | None \<Rightarrow>
          (Inr (), w\<lparr>trace := trace w @ [Call_send_contact_email ci],
                      clock_reads := Suc (clock_reads w),
                      sent_mail := sent_mail w @ [contact_message cfg E ci (utcnow E (clock_reads w))]\<rparr>))"
  by (simp add: send_contact_email_def try_except_def and_then_def record_call_def
      datetime_utcnow_def smtp_send_def print_def split: option.splits)

lemma store_lead_run:
  "store_lead cfg E ci w =
     (case leads_insert_error E (lead_data ci (utcnow E (clock_reads w))) of
        Some e \<Rightarrow> (Inl e, w\<lparr>clock_reads := Suc (clock_reads w)\<rparr>)
      | None \<Rightarrow>
          send_contact_email cfg E ci
            (w\<lparr>clock_reads := Suc (clock_reads w),
               leads := leads w @ [lead_data ci (utcnow E (clock_reads w))]\<rparr>))"
  by (simp add: store_lead_def and_then_def datetime_utcnow_def leads_insert_one_def
      split: option.splits)

section \<open>The window on the history\<close>

lemma slice_from_nonempty: "0 \<le> n \<Longrightarrow> xs \<noteq> [] \<Longrightarrow> slice_from (- n) xs \<noteq> []"
  by (cases xs) (auto simp: slice_from_def Let_def)

lemma set_slice_from: "set (slice_from s xs) \<subseteq> set xs"
  by (simp add: slice_from_def Let_def set_drop_subset)

lemma render_history_projected:
  assumes "xs \<noteq> []" and "\<forall>m\<in>set xs. \<exists>t. m = projected t"
  shows "render_history xs context = Inl (KeyError ''content'')"
proof -
  from assms obtain t rest where "xs = projected t # rest" by (cases xs) auto
  then show ?thesis by (simp add: projected_def dict_getitem_def)
qed

lemma chats_find_projected:
  "chats_find E sid w = (Inr h, w') \<Longrightarrow> \<forall>m\<in>set h. \<exists>t. m = projected t"
  by (auto simp: chats_find_def split: option.splits)

lemma build_context_loaded:
  assumes "0 \<le> MAX_CHAT_HISTORY cfg" and "chats_find E sid w0 = (Inr chat_history, w1)"
    and "chat_history \<noteq> []"
  shows "build_context cfg chat_history = Inl (KeyError ''content'')"
proof -
  let ?window = "slice_from (- MAX_CHAT_HISTORY cfg) chat_history"
  have "?window \<noteq> []" using assms(1,3) by (rule slice_from_nonempty)
  moreover have "\<forall>m\<in>set ?window. \<exists>t. m = projected t"
    using chats_find_projected [OF assms(2)] set_slice_from [of "- MAX_CHAT_HISTORY cfg" chat_history]
    by blast
  ultimately show ?thesis unfolding build_context_def by (rule render_history_projected)
qed

lemma slice_from_positive:
  "0 < n \<Longrightarrow> slice_from (- n) xs = drop (length xs - nat n) xs"
  by (auto simp: slice_from_def Let_def max_def nat_diff_distrib' intro: arg_cong [where f = "\<lambda>k. drop k xs"])

lemma render_history_lines:
  "render_history (map (\<lambda>(r, c). [(''role'', r), (''content'', c)]) turns) ctx =
     Inr (ctx @ concat (map (\<lambda>(r, c). r @ '': '' @ c @ [NL]) turns))"
  by (induction turns arbitrary: ctx) (auto simp: dict_getitem_def)

lemma build_context_positive_cap:
  assumes "0 < MAX_CHAT_HISTORY cfg"
  shows "build_context cfg (map (\<lambda>(r, c). [(''role'', r), (''content'', c)]) turns) =
           Inr (SYSTEM_PROMPT @ [NL, NL] @ ''Chat history:'' @ [NL] @
                concat (map (\<lambda>(r, c). r @ '': '' @ c @ [NL])
                  (drop (length turns - nat (MAX_CHAT_HISTORY cfg)) turns)))"
  by (simp add: build_context_def slice_from_positive [OF assms] drop_map render_history_lines)

section \<open>Dictionaries and extracted fields\<close>

lemma map_of_dict_setitem: "map_of (dict_setitem k v d) = (map_of d)(k \<mapsto> v)"
  by (induction d) (auto simp: fun_eq_iff)

lemma keys_dict_setitem: "fst ` set (dict_setitem k v d) = insert k (fst ` set d)"
  by (simp add: dom_map_of_conv_image_fst [symmetric] map_of_dict_setitem)

lemma map_of_Str: "map_of (map (\<lambda>(k, v). (k, Str v)) d) k = map_option Str (map_of d k)"
  by (induction d) auto

lemma map_of_lead_data:
  "map_of (lead_data ci now) =
     (\<lambda>k. map_option Str (map_of ci k))(''timestamp'' \<mapsto> DateTime now, ''followed_up'' \<mapsto> Bool False)"
  by (simp add: lead_data_def map_of_dict_setitem map_of_Str fun_eq_iff)

lemma spec_field_range:
  "spec_field line = Some field \<Longrightarrow> field \<in> {''name'', ''email'', ''phone''}"
  by (auto simp: spec_field_def split: if_splits)

lemma spec_field_None:
  "spec_field line = None \<longleftrightarrow>
     \<not> str_in ''name:'' (lower line) \<and> \<not> str_in ''email:'' (lower line) \<and>
     \<not> str_in ''phone:'' (lower line)"
  by (auto simp: spec_field_def)

lemma foldl_no_field:
  "\<forall>line\<in>set ls. spec_field line = None \<Longrightarrow>
   foldl (\<lambda>info line.
            case spec_field line of
              None \<Rightarrow> info
            | Some field \<Rightarrow> dict_setitem field (spec_value line) info) info ls = info"
  by (induction ls arbitrary: info) auto

lemma foldl_keys:
  "fst ` set (foldl (\<lambda>info line.
            case spec_field line of
              None \<Rightarrow> info
            | Some field \<Rightarrow> dict_setitem field (spec_value line) info) info ls)
   \<subseteq> fst ` set info \<union> {''name'', ''email'', ''phone''}"
proof (induction ls arbitrary: info)
  case Nil
  then show ?case by auto
next
  case (Cons line ls)
  show ?case
  proof (cases "spec_field line")
    case None
    with Cons.IH [of info] show ?thesis by auto
  next
    case (Some field)
    then have "field \<in> {''name'', ''email'', ''phone''}" by (rule spec_field_range)
    with Cons.IH [of "dict_setitem field (spec_value line) info"] Some
    show ?thesis by (auto simp: keys_dict_setitem)
  qed
qed

lemma spec_extract_keys: "fst ` set (spec_extract message) \<subseteq> {''name'', ''email'', ''phone''}"
  using foldl_keys [of "[]" "split NL message"] by (simp add: spec_extract_def)

lemma spec_extract_no_key:
  "k \<notin> {''name'', ''email'', ''phone''} \<Longrightarrow> map_of (spec_extract message) k = None"
  using spec_extract_keys [of message] by (auto simp: map_of_eq_None_iff)

lemma extract_contact_info_eq: "extract_contact_info message = Inr (spec_extract message)"
  by (simp add: extract_contact_info_def spec_extract_def extract_lines_eq)

lemma spec_extract_no_marker:
  assumes "\<not> str_in ''name:'' (lower message)" and "\<not> str_in ''email:'' (lower message)"
    and "\<not> str_in ''phone:'' (lower message)"
  shows "spec_extract message = []"
proof -
  have "spec_field line = None" if "line \<in> set (split NL message)" for line
    using assms str_in_line [OF that] by (auto simp: spec_field_None)
  then show ?thesis by (simp add: spec_extract_def foldl_no_field)
qed

section \<open>The handler, step by step\<close>

lemma notified_append: "notified (xs @ ys) = notified xs @ notified ys"
  by (induction xs rule: notified.induct) simp_all

lemma chat_unfold:
  "chat cfg E data w =
     (case store_chat E (request_session_id data) ''user'' (request_message data) w of
        (Inl e, w1) \<Rightarrow> (Inl e, w1)
      | (Inr u, w1) \<Rightarrow>
          (case chats_find E (request_session_id data) w1 of
             (Inl e, w2) \<Rightarrow> (Inl e, w2)
           | (Inr chat_history, w2) \<Rightarrow>
               (case generate_response cfg E (request_message data) chat_history w2 of
                  (Inl e, w3) \<Rightarrow> (Inl e, w3)
                | (Inr response, w3) \<Rightarrow>
                    (case store_chat E (request_session_id data) ''assistant'' response w3 of
                       (Inl e, w4) \<Rightarrow> (Inl e, w4)
                     | (Inr u, w4) \<Rightarrow>
                         capture_lead cfg E (request_session_id data) (request_message data)
                           response (str_in (lower (CONTACT_PROMPT cfg)) (lower response)) w4))))"
  by (simp add: chat_def Let_def and_then_def split: prod.splits sum.splits)

lemma store_chat_frame:
  assumes "store_chat E sid role m w = (r, w')"
  shows "trace w' = trace w" and "leads w' = leads w" and "sent_mail w' = sent_mail w"
  using assms by (auto simp: store_chat_run split: option.splits)

lemma chats_find_frame: "chats_find E sid w = (r, w') \<Longrightarrow> w' = w"
  by (auto simp: chats_find_def split: option.splits)

lemma generate_response_frame:
  assumes "generate_response cfg E prompt h w = (r, w')"
  shows "leads w' = leads w" and "sent_mail w' = sent_mail w"
  using assms by (auto simp: generate_response_run split: sum.splits)

lemma capture_lead_run:
  "capture_lead cfg E sid msg response cr w =
     (if cr \<and> list_ex (\<lambda>keyword. str_in keyword (lower msg)) [''name'', ''email'', ''phone'']
      then
        (if spec_extract msg \<noteq> [] then
           (case store_lead cfg E
                   (dict_setitem ''interest'' ''From chat''
                      (dict_setitem ''session_id'' sid (spec_extract msg)))
                   (w\<lparr>trace := trace w @ [Call_extract_contact_info msg]\<rparr>) of
              (Inl e, w') \<Rightarrow> (Inl e, w')
            | (Inr u, w') \<Rightarrow> (Inr (response @ THANK_YOU), w'))
         else (Inr response, w\<lparr>trace := trace w @ [Call_extract_contact_info msg]\<rparr>))
      else (Inr response, w))"
  by (auto simp: capture_lead_def and_then_def record_call_def lift_def return_def Let_def
      extract_contact_info_eq split: prod.splits sum.splits)

section \<open>The reply generator\<close>

text \<open>
  Claim C1. The handler stores and queries a turn's text under the key \<open>message\<close>, and
  the context loop reads the key \<open>content\<close>. So for a cap on the history that is not
  negative and a history loaded from the store that is not empty, the loop raises
  \<open>KeyError\<close> on the first turn it renders: \<open>generate_response\<close> prints the error and
  returns the fallback text, whatever the model service \<open>E'\<close> would do. The state it
  leaves shows that the model was never called: the only call recorded is the one of
  \<open>generate_response\<close> itself.
\<close>

theorem generate_response_loaded_history_fallback:
  assumes "0 \<le> MAX_CHAT_HISTORY cfg"
    and "chats_find E session_id w0 = (Inr chat_history, w1)"
    and "chat_history \<noteq> []"
  shows "generate_response cfg E' prompt chat_history w =
           (Inr FALLBACK,
            w\<lparr>trace := trace w @ [Call_generate_response prompt chat_history],
              stdout := stdout w @
                [''Error generating response: '' @ str_exn (KeyError ''content'')]\<rparr>)"
  by (simp add: generate_response_run build_context_loaded [OF assms])

theorem generate_response_loaded_history_fallback_witness:
  "0 \<le> MAX_CHAT_HISTORY ex_config \<and>
   chats_find ex_env ''s1'' (ex_world\<lparr>chat_logs := [chat_data ''s1'' ''user'' ''Hi'' 0]\<rparr>) =
     (Inr [[(''role'', ''user''), (''message'', ''Hi'')]],
      ex_world\<lparr>chat_logs := [chat_data ''s1'' ''user'' ''Hi'' 0]\<rparr>) \<and>
   [[(''role'', ''user''), (''message'', ''Hi'')]] \<noteq> [] \<and>
   generate_response ex_config ex_env ''Hi'' [[(''role'', ''user''), (''message'', ''Hi'')]] ex_world =
     (Inr FALLBACK,
      ex_world\<lparr>trace := [Call_generate_response ''Hi'' [[(''role'', ''user''), (''message'', ''Hi'')]]],
        stdout := [''Error generating response: '' @ str_exn (KeyError ''content'')]\<rparr>)"
proof -
  have cap: "0 \<le> MAX_CHAT_HISTORY ex_config"
    by (simp add: ex_config_def)
  have loaded:
    "chats_find ex_env ''s1'' (ex_world\<lparr>chat_logs := [chat_data ''s1'' ''user'' ''Hi'' 0]\<rparr>) =
       (Inr [[(''role'', ''user''), (''message'', ''Hi'')]],
        ex_world\<lparr>chat_logs := [chat_data ''s1'' ''user'' ''Hi'' 0]\<rparr>)"
    by (simp add: chats_find_def ex_env_def ex_world_def chat_data_def projected_def)
  have nonempty: "[[(''role'', ''user''), (''message'', ''Hi'')]] \<noteq> ([] :: string dict list)"
    by simp
  from generate_response_loaded_history_fallback [OF cap loaded nonempty, of ex_env "''Hi''" ex_world]
  show ?thesis using cap loaded by (simp add: ex_world_def)
qed

text \<open>
  The bound on the cap is needed. A negative cap \<open>-k\<close> makes the slice
  \<open>chat_history[k:]\<close>, which drops turns from the front: a history of one turn then
  renders without a lookup, and the model is called.
\<close>

lemma negative_cap_drops_turns:
  "build_context (ex_config\<lparr>MAX_CHAT_HISTORY := - 1\<rparr>) [[(''role'', ''user''), (''message'', ''Hi'')]] =
     Inr (SYSTEM_PROMPT @ [NL, NL] @ ''Chat history:'' @ [NL])"
  by (simp add: build_context_def slice_from_def)

text \<open>
  Claim C9. When the call of the model service raises, whatever the exception,
  \<open>generate_response\<close> prints it and returns the fallback text. No exception leaves the
  function: on every input it returns some text.
\<close>

theorem generate_response_model_failure:
  assumes "build_context cfg chat_history = Inr context"
    and "generate_content E (full_prompt context prompt) = Inl e"
  shows "generate_response cfg E prompt chat_history w =
           (Inr FALLBACK,
            w\<lparr>trace := trace w @ [Call_generate_response prompt chat_history,
                                    Call_generate_content (full_prompt context prompt)],
              stdout := stdout w @ [''Error generating response: '' @ str_exn e]\<rparr>) \<and>
         (\<exists>text. fst (generate_response cfg E prompt' chat_history' w') = Inr text)"
  using assms by (simp add: generate_response_run split: sum.splits)

theorem generate_response_model_failure_witness:
  "build_context ex_config [] = Inr (SYSTEM_PROMPT @ [NL, NL] @ ''Chat history:'' @ [NL]) \<and>
   generate_content (ex_env\<lparr>generate_content := \<lambda>p. Inl ex_failure\<rparr>)
     (full_prompt (SYSTEM_PROMPT @ [NL, NL] @ ''Chat history:'' @ [NL]) ''Hi'') = Inl ex_failure \<and>
   fst (generate_response ex_config (ex_env\<lparr>generate_content := \<lambda>p. Inl ex_failure\<rparr>) ''Hi'' [] ex_world) =
     Inr FALLBACK \<and>
   stdout (snd (generate_response ex_config (ex_env\<lparr>generate_content := \<lambda>p. Inl ex_failure\<rparr>) ''Hi'' [] ex_world)) =
     [''Error generating response: service unavailable'']"
proof -
  have built: "build_context ex_config [] = Inr (SYSTEM_PROMPT @ [NL, NL] @ ''Chat history:'' @ [NL])"
    by (simp add: build_context_def slice_from_def)
  have down: "generate_content (ex_env\<lparr>generate_content := \<lambda>p. Inl ex_failure\<rparr>)
     (full_prompt (SYSTEM_PROMPT @ [NL, NL] @ ''Chat history:'' @ [NL]) ''Hi'') = Inl ex_failure"
    by simp
  from generate_response_model_failure [OF built down, of ex_world]
  show ?thesis using built by (simp add: ex_world_def ex_failure_def)
qed

text \<open>
  Claim C3. With \<open>MAX_CHAT_HISTORY = 0\<close> the slice \<open>chat_history[-0:]\<close> is the whole
  history, not the empty list: called with one earlier turn, \<open>generate_response\<close> sends
  the model a prompt that holds the line of that turn between the preamble and the
  current message.
\<close>

theorem zero_cap_prompt_has_history:
  "generate_response (ex_config\<lparr>MAX_CHAT_HISTORY := 0\<rparr>) ex_env ''Hi''
     [[(''role'', ''user''), (''content'', ''earlier question'')]] ex_world =
   (Inr ''Hello'',
    ex_world\<lparr>trace :=
      [Call_generate_response ''Hi'' [[(''role'', ''user''), (''content'', ''earlier question'')]],
       Call_generate_content
         (SYSTEM_PROMPT @ [NL, NL] @ ''Chat history:'' @ [NL] @
          ''user: earlier question'' @ [NL] @
          [NL] @ ''User: Hi'' @ [NL] @ ''Assistant:'')]\<rparr>)"
  by (simp add: generate_response_run build_context_def slice_from_def dict_getitem_def
      full_prompt_def ex_env_def ex_world_def)

text \<open>
  Claim C10. The same slice at a history of two turns, which is longer than the cap
  \<open>0\<close>: the context holds both turns, where the last \<open>0\<close> turns are none. (For a cap
  above \<open>0\<close> the context holds the last \<open>MAX_CHAT_HISTORY\<close> turns in their order, and
  all of them when there are fewer: \<open>build_context_positive_cap\<close>.)
\<close>

theorem zero_cap_context_has_all_turns:
  "build_context (ex_config\<lparr>MAX_CHAT_HISTORY := 0\<rparr>)
     [[(''role'', ''user''), (''content'', ''a'')], [(''role'', ''assistant''), (''content'', ''b'')]] =
   Inr (SYSTEM_PROMPT @ [NL, NL] @ ''Chat history:'' @ [NL] @
        ''user: a'' @ [NL] @ ''assistant: b'' @ [NL])"
  by (simp add: build_context_def slice_from_def dict_getitem_def)

section \<open>The extractor\<close>

text \<open>
  Claim C6. \<open>extract_contact_info\<close> never raises and computes what the specification
  words: per line of the message, the first of \<open>name:\<close>, \<open>email:\<close>, \<open>phone:\<close> that
  occurs in the line without regard to case selects the field, which is assigned the
  trimmed text after the first colon of the line. On the specification's example it
  yields the name and the email address, and no key \<open>phone\<close>.
\<close>

theorem extract_contact_info_as_specified:
  "extract_contact_info message = Inr (spec_extract message) \<and>
   extract_contact_info (''My name: Jane Doe'' @ [NL] @ ''email: jane@x.com'') =
     Inr [(''name'', ''Jane Doe''), (''email'', ''jane@x.com'')] \<and>
   dict_getitem [(''name'', ''Jane Doe''), (''email'', ''jane@x.com'')] ''phone'' = Inl (KeyError ''phone'')"
proof -
  have general: "extract_contact_info m = Inr (spec_extract m)" for m
    by (simp add: extract_contact_info_def spec_extract_def extract_lines_eq)
  have example: "extract_contact_info (''My name: Jane Doe'' @ [NL] @ ''email: jane@x.com'') =
      Inr [(''name'', ''Jane Doe''), (''email'', ''jane@x.com'')]"
    by code_simp
  have no_phone:
    "dict_getitem [(''name'', ''Jane Doe''), (''email'', ''jane@x.com'')] ''phone'' = Inl (KeyError ''phone'')"
    by (simp add: dict_getitem_def)
  from general example no_phone show ?thesis by (intro conjI)
qed

section \<open>The history query and the calls of a request\<close>

lemma chats_find_unknown:
  assumes "\<forall>t\<in>set (chat_logs w). turn_session_id t \<noteq> sid" and "chats_find_error E sid = None"
  shows "chats_find E sid w = (Inr [], w)"
proof -
  from assms(1) have "filter (\<lambda>t. turn_session_id t = sid) (chat_logs w) = []"
    by (simp add: filter_empty_conv)
  with assms(2) show ?thesis by (simp add: chats_find_def)
qed

lemma chats_find_first_turn:
  assumes "\<forall>t\<in>set (chat_logs w). turn_session_id t \<noteq> sid" and "chats_find_error E sid = None"
  shows "chats_find E sid (w\<lparr>clock_reads := n, chat_logs := chat_logs w @ [chat_data sid role m now]\<rparr>) =
           (Inr [[(''role'', role), (''message'', m)]],
            w\<lparr>clock_reads := n, chat_logs := chat_logs w @ [chat_data sid role m now]\<rparr>)"
proof -
  from assms(1) have "filter (\<lambda>t. turn_session_id t = sid) (chat_logs w) = []"
    by (simp add: filter_empty_conv)
  with assms(2) show ?thesis by (simp add: chats_find_def chat_data_def projected_def)
qed


lemma generate_response_calls:
  assumes "generate_response cfg E prompt h w = (r, w')"
  shows "\<exists>evs. trace w' = trace w @ evs \<and> notified evs = [] \<and> extractions evs = []"
  using assms by (auto simp: generate_response_run split: sum.splits)

lemma generate_response_returns:
  "\<exists>response w'. generate_response cfg E prompt h w = (Inr response, w')"
  by (auto simp: generate_response_run split: sum.splits)

lemma store_lead_calls:
  assumes "store_lead cfg E ci w = (r, w')"
  shows "\<exists>evs. trace w' = trace w @ evs \<and> extractions evs = []"
  using assms by (auto simp: store_lead_run send_contact_email_run split: option.splits)

lemma capture_lead_calls:
  "\<exists>evs. trace (snd (capture_lead cfg E sid msg response cr w)) = trace w @ evs \<and>
     extractions evs =
       (if cr \<and> list_ex (\<lambda>keyword. str_in keyword (lower msg)) [''name'', ''email'', ''phone'']
        then [msg] else [])"
proof -
  let ?w = "w\<lparr>trace := trace w @ [Call_extract_contact_info msg]\<rparr>"
  let ?ci = "dict_setitem ''interest'' ''From chat''
               (dict_setitem ''session_id'' sid (spec_extract msg))"
  obtain r5 w5 where s5: "store_lead cfg E ?ci ?w = (r5, w5)"
    by (cases "store_lead cfg E ?ci ?w")
  from store_lead_calls [OF s5] obtain evs5 where
    "trace w5 = trace w @ Call_extract_contact_info msg # evs5" and "extractions evs5 = []"
    by auto
  with s5 show ?thesis by (auto simp: capture_lead_run split: sum.splits)
qed

lemma capture_lead_no_extraction:
  assumes "spec_extract msg = []"
  shows "leads (snd (capture_lead cfg E sid msg response cr w)) = leads w"
    and "sent_mail (snd (capture_lead cfg E sid msg response cr w)) = sent_mail w"
    and "\<exists>evs. trace (snd (capture_lead cfg E sid msg response cr w)) = trace w @ evs \<and>
           notified evs = []"
  using assms by (auto simp: capture_lead_run)

lemma chat_steps:
  assumes "store_chat E (request_session_id data) ''user'' (request_message data) w = (Inr (), w1)"
    and "chats_find E (request_session_id data) w1 = (Inr chat_history, w2)"
    and "generate_response cfg E (request_message data) chat_history w2 = (Inr response, w3)"
    and "store_chat E (request_session_id data) ''assistant'' response w3 = (Inr (), w4)"
  shows "chat cfg E data w =
           capture_lead cfg E (request_session_id data) (request_message data) response
             (str_in (lower (CONTACT_PROMPT cfg)) (lower response)) w4"
    and "leads w4 = leads w" and "sent_mail w4 = sent_mail w"
    and "\<exists>evs. trace w4 = trace w @ evs \<and> notified evs = [] \<and> extractions evs = []"
proof -
  show "chat cfg E data w =
           capture_lead cfg E (request_session_id data) (request_message data) response
             (str_in (lower (CONTACT_PROMPT cfg)) (lower response)) w4"
    using assms by (simp add: chat_unfold)
  have w2: "w2 = w1" using assms(2) by (rule chats_find_frame)
  note f1 = store_chat_frame [OF assms(1)]
  note f3 = generate_response_frame [OF assms(3)]
  note f4 = store_chat_frame [OF assms(4)]
  show "leads w4 = leads w" using f1 f3 f4 w2 by simp
  show "sent_mail w4 = sent_mail w" using f1 f3 f4 w2 by simp
  from generate_response_calls [OF assms(3)] obtain evs where
    "trace w3 = trace w2 @ evs" "notified evs = []" "extractions evs = []" by blast
  with f1 f4 w2 show "\<exists>evs. trace w4 = trace w @ evs \<and> notified evs = [] \<and> extractions evs = []"
    by simp
qed

lemma ex_steps:
  "store_chat ex_env ''s1'' ''user'' m ex_world = (Inr (), ex_world1 m)"
  "chats_find ex_env ''s1'' (ex_world1 m) = (Inr (ex_history m), ex_world1 m)"
  "generate_response ex_config ex_env m (ex_history m) (ex_world1 m) = (Inr FALLBACK, ex_world3 m)"
  "store_chat ex_env ''s1'' ''assistant'' FALLBACK (ex_world3 m) = (Inr (), ex_world4 m)"
proof -
  show "store_chat ex_env ''s1'' ''user'' m ex_world = (Inr (), ex_world1 m)"
    by (simp add: ex_world1_def store_chat_run ex_env_def)
  show "chats_find ex_env ''s1'' (ex_world1 m) = (Inr (ex_history m), ex_world1 m)"
    by (simp add: ex_world1_def store_chat_run ex_env_def chats_find_def ex_world_def
        chat_data_def projected_def ex_history_def)
  have "build_context ex_config (ex_history m) = Inl (KeyError ''content'')"
    by (simp add: build_context_def ex_history_def ex_config_def slice_from_def dict_getitem_def)
  then show "generate_response ex_config ex_env m (ex_history m) (ex_world1 m) = (Inr FALLBACK, ex_world3 m)"
    by (simp add: ex_world3_def generate_response_run)
  show "store_chat ex_env ''s1'' ''assistant'' FALLBACK (ex_world3 m) = (Inr (), ex_world4 m)"
    by (simp add: ex_world4_def store_chat_run ex_env_def)
qed

lemma ex_request_simps:
  "request_session_id (ex_request sid m) = sid" "request_message (ex_request sid m) = m"
  by (simp_all add: request_session_id_def request_message_def ex_request_def)

text \<open>
  Claim C4, as the code has it. The handler stores the user's turn before it queries the
  history. So for the first message of a session that the store does not know, the
  history handed to \<open>generate_response\<close> is not empty: it is the one turn just stored, the
  current message with the role \<open>user\<close>. The query itself does return the empty list,
  and no error, for a session without turns.
\<close>

theorem first_message_history_is_the_message:
  assumes unknown: "\<forall>t\<in>set (chat_logs w). turn_session_id t \<noteq> request_session_id data"
    and stored: "chats_insert_error E
           (chat_data (request_session_id data) ''user'' (request_message data)
              (utcnow E (clock_reads w))) = None"
    and found: "chats_find_error E (request_session_id data) = None"
  shows "chats_find E (request_session_id data) w = (Inr [], w) \<and>
         (\<exists>rest. calls_of cfg E data w =
            Call_generate_response (request_message data)
              [[(''role'', ''user''), (''message'', request_message data)]] # rest)"
proof -
  let ?sid = "request_session_id data" and ?msg = "request_message data"
  let ?w1 = "w\<lparr>clock_reads := Suc (clock_reads w),
               chat_logs := chat_logs w @ [chat_data ?sid ''user'' ?msg (utcnow E (clock_reads w))]\<rparr>"
  let ?h = "[[(''role'', ''user''), (''message'', ?msg)]]"
  have s1: "store_chat E ?sid ''user'' ?msg w = (Inr (), ?w1)"
    using stored by (simp add: store_chat_run)
  have s2: "chats_find E ?sid ?w1 = (Inr ?h, ?w1)"
    using unknown found by (rule chats_find_first_turn)
  obtain response w3 where s3: "generate_response cfg E ?msg ?h ?w1 = (Inr response, w3)"
    using generate_response_returns by blast
  then obtain evs where t3: "trace w3 = trace w @ Call_generate_response ?msg ?h # evs"
    by (auto simp: generate_response_run split: sum.splits)
  obtain r4 w4 where s4: "store_chat E ?sid ''assistant'' response w3 = (r4, w4)"
    by (cases "store_chat E ?sid ''assistant'' response w3")
  then have t4: "trace w4 = trace w3" by (rule store_chat_frame)
  have "\<exists>rest. trace (snd (chat cfg E data w)) = trace w3 @ rest"
  proof (cases r4)
    case (Inl e)
    with s1 s2 s3 s4 t4 show ?thesis by (simp add: chat_unfold)
  next
    case (Inr u)
    let ?cr = "str_in (lower (CONTACT_PROMPT cfg)) (lower response)"
    from capture_lead_calls [of cfg E ?sid ?msg response ?cr w4]
    obtain evs5 where "trace (snd (capture_lead cfg E ?sid ?msg response ?cr w4)) = trace w4 @ evs5"
      by blast
    with s1 s2 s3 s4 t4 Inr show ?thesis by (simp add: chat_unfold)
  qed
  then obtain rest where
    "trace (snd (chat cfg E data w)) = trace w @ Call_generate_response ?msg ?h # evs @ rest"
    using t3 by auto
  then have "calls_of cfg E data w = Call_generate_response ?msg ?h # evs @ rest"
    by (simp add: calls_of_def)
  moreover have "chats_find E ?sid w = (Inr [], w)"
    using unknown found by (rule chats_find_unknown)
  ultimately show ?thesis by blast
qed

theorem first_message_history_is_the_message_witness:
  "chat_logs ex_world = [] \<and>
   chats_insert_error ex_env
     (chat_data (request_session_id (ex_request ''s1'' ''Hi'')) ''user''
        (request_message (ex_request ''s1'' ''Hi'')) (utcnow ex_env (clock_reads ex_world))) = None \<and>
   chats_find_error ex_env (request_session_id (ex_request ''s1'' ''Hi'')) = None \<and>
   chats_find ex_env ''s1'' ex_world = (Inr [], ex_world) \<and>
   hd (calls_of ex_config ex_env (ex_request ''s1'' ''Hi'') ex_world) =
     Call_generate_response ''Hi'' [[(''role'', ''user''), (''message'', ''Hi'')]]"
proof -
  have empty: "chat_logs ex_world = []" by (simp add: ex_world_def)
  then have unknown:
    "\<forall>t\<in>set (chat_logs ex_world). turn_session_id t \<noteq> request_session_id (ex_request ''s1'' ''Hi'')"
    by simp
  have stored: "chats_insert_error ex_env
     (chat_data (request_session_id (ex_request ''s1'' ''Hi'')) ''user''
        (request_message (ex_request ''s1'' ''Hi'')) (utcnow ex_env (clock_reads ex_world))) = None"
    by (simp add: ex_env_def)
  have found: "chats_find_error ex_env (request_session_id (ex_request ''s1'' ''Hi'')) = None"
    by (simp add: ex_env_def)
  have req: "request_session_id (ex_request ''s1'' ''Hi'') = ''s1''"
    "request_message (ex_request ''s1'' ''Hi'') = ''Hi''"
    by (simp_all add: request_session_id_def request_message_def ex_request_def)
  from first_message_history_is_the_message [OF unknown stored found, of ex_config]
  obtain rest where "chats_find ex_env ''s1'' ex_world = (Inr [], ex_world)"
    and "calls_of ex_config ex_env (ex_request ''s1'' ''Hi'') ex_world =
       Call_generate_response ''Hi'' [[(''role'', ''user''), (''message'', ''Hi'')]] # rest"
    unfolding req by blast
  then show ?thesis using empty stored found by simp
qed

text \<open>
  The claim as it was stated fails: in the empty store, the first message \<open>Hi\<close> of the
  session \<open>s1\<close> reaches \<open>generate_response\<close> with a history of one turn.
\<close>

theorem first_message_history_not_empty:
  "calls_of ex_config ex_env (ex_request ''s1'' ''Hi'') ex_world =
     [Call_generate_response ''Hi'' [[(''role'', ''user''), (''message'', ''Hi'')]]] \<and>
   Call_generate_response ''Hi'' [] \<notin> set (calls_of ex_config ex_env (ex_request ''s1'' ''Hi'') ex_world)"
proof -
  have "calls_of ex_config ex_env (ex_request ''s1'' ''Hi'') ex_world =
     [Call_generate_response ''Hi'' [[(''role'', ''user''), (''message'', ''Hi'')]]]"
    by code_simp
  then show ?thesis by simp
qed



text \<open>
  Claim C7. A message in which none of the markers \<open>name:\<close>, \<open>email:\<close>, \<open>phone:\<close>
  occurs (compared without regard to case) extracts to the empty dictionary, and the
  request leaves the lead store and the sent mail as they were and never calls
  \<open>send_contact_email\<close>: on every path of the handler, also when the phrase is in the
  reply and a keyword is in the message.
\<close>

theorem no_marker_no_lead:
  assumes "\<not> str_in ''name:'' (lower (request_message data))"
    and "\<not> str_in ''email:'' (lower (request_message data))"
    and "\<not> str_in ''phone:'' (lower (request_message data))"
  shows "extract_contact_info (request_message data) = Inr [] \<and>
         leads (snd (chat cfg E data w)) = leads w \<and>
         sent_mail (snd (chat cfg E data w)) = sent_mail w \<and>
         notified (calls_of cfg E data w) = []"
proof -
  let ?sid = "request_session_id data" and ?msg = "request_message data"
  have empty: "spec_extract ?msg = []" using assms by (rule spec_extract_no_marker)
  obtain r1 w1 where s1: "store_chat E ?sid ''user'' ?msg w = (r1, w1)"
    by (cases "store_chat E ?sid ''user'' ?msg w")
  note f1 = store_chat_frame [OF s1]
  have "leads (snd (chat cfg E data w)) = leads w \<and>
        sent_mail (snd (chat cfg E data w)) = sent_mail w \<and>
        (\<exists>evs. trace (snd (chat cfg E data w)) = trace w @ evs \<and> notified evs = [])"
  proof (cases r1)
    case (Inl e)
    with s1 f1 show ?thesis by (simp add: chat_unfold)
  next
    case r1: (Inr u1)
    obtain r2 w2 where s2: "chats_find E ?sid w1 = (r2, w2)"
      by (cases "chats_find E ?sid w1")
    then have w2: "w2 = w1" by (rule chats_find_frame)
    show ?thesis
    proof (cases r2)
      case (Inl e)
      with s1 r1 s2 w2 f1 show ?thesis by (simp add: chat_unfold)
    next
      case r2: (Inr h)
      obtain response w3 where s3: "generate_response cfg E ?msg h w2 = (Inr response, w3)"
        using generate_response_returns by blast
      note f3 = generate_response_frame [OF s3]
      from generate_response_calls [OF s3] obtain evs3 where
        t3: "trace w3 = trace w2 @ evs3" "notified evs3 = []" by blast
      obtain r4 w4 where s4: "store_chat E ?sid ''assistant'' response w3 = (r4, w4)"
        by (cases "store_chat E ?sid ''assistant'' response w3")
      note f4 = store_chat_frame [OF s4]
      show ?thesis
      proof (cases r4)
        case (Inl e)
        with s1 r1 s2 r2 s3 s4 w2 f1 f3 f4 t3 show ?thesis by (simp add: chat_unfold)
      next
        case r4: (Inr u4)
        let ?cr = "str_in (lower (CONTACT_PROMPT cfg)) (lower response)"
        have c: "chat cfg E data w = capture_lead cfg E ?sid ?msg response ?cr w4"
          using s1 r1 s2 r2 s3 s4 r4 by (simp add: chat_unfold)
        note n = capture_lead_no_extraction [OF empty, of cfg E ?sid response ?cr w4]
        from n(3) obtain evs5 where
          "trace (snd (capture_lead cfg E ?sid ?msg response ?cr w4)) = trace w4 @ evs5"
          "notified evs5 = []" by blast
        with n(1,2) c w2 f1 f3 f4 t3 show ?thesis by (simp add: notified_append)
      qed
    qed
  qed
  then obtain evs where "leads (snd (chat cfg E data w)) = leads w"
    "sent_mail (snd (chat cfg E data w)) = sent_mail w"
    "trace (snd (chat cfg E data w)) = trace w @ evs" "notified evs = []" by blast
  then show ?thesis using empty by (simp add: calls_of_def extract_contact_info_eq)
qed

theorem no_marker_no_lead_witness:
  "\<not> str_in ''name:'' (lower ''my name is Bob'') \<and>
   \<not> str_in ''email:'' (lower ''my name is Bob'') \<and>
   \<not> str_in ''phone:'' (lower ''my name is Bob'') \<and>
   str_in (lower (CONTACT_PROMPT ex_config)) (lower FALLBACK) \<and>
   str_in ''name'' (lower ''my name is Bob'') \<and>
   fst (chat ex_config ex_env (ex_request ''s1'' ''my name is Bob'') ex_world) = Inr FALLBACK \<and>
   extract_contact_info ''my name is Bob'' = Inr [] \<and>
   leads (snd (chat ex_config ex_env (ex_request ''s1'' ''my name is Bob'') ex_world)) = [] \<and>
   sent_mail (snd (chat ex_config ex_env (ex_request ''s1'' ''my name is Bob'') ex_world)) = [] \<and>
   notified (calls_of ex_config ex_env (ex_request ''s1'' ''my name is Bob'') ex_world) = []"
proof -
  have m1: "\<not> str_in ''name:'' (lower ''my name is Bob'')" by code_simp
  have m2: "\<not> str_in ''email:'' (lower ''my name is Bob'')" by code_simp
  have m3: "\<not> str_in ''phone:'' (lower ''my name is Bob'')" by code_simp
  have trigger: "str_in (lower (CONTACT_PROMPT ex_config)) (lower FALLBACK)"
    by code_simp
  have keyword: "str_in ''name'' (lower ''my name is Bob'')"
    by code_simp
  have reply: "fst (chat ex_config ex_env (ex_request ''s1'' ''my name is Bob'') ex_world) = Inr FALLBACK"
    by code_simp
  have start: "leads ex_world = []" "sent_mail ex_world = []"
    by (simp_all add: ex_world_def)
  from no_marker_no_lead [of "ex_request ''s1'' ''my name is Bob''" ex_config ex_env ex_world,
      unfolded ex_request_simps, OF m1 m2 m3]
  show ?thesis using m1 m2 m3 trigger keyword reply start by simp
qed

section \<open>Leads\<close>

lemma store_lead_ok:
  assumes "leads_insert_error E (lead_data ci (utcnow E (clock_reads w))) = None"
  shows "fst (store_lead cfg E ci w) = Inr ()"
    and "leads (snd (store_lead cfg E ci w)) = leads w @ [lead_data ci (utcnow E (clock_reads w))]"
    and "trace (snd (store_lead cfg E ci w)) = trace w @ [Call_send_contact_email ci]"
  using assms by (simp_all add: store_lead_run send_contact_email_run split: option.splits)

lemma store_lead_mail:
  "sent_mail (snd (store_lead cfg E ci w)) =
     (case leads_insert_error E (lead_data ci (utcnow E (clock_reads w))) of
        Some e \<Rightarrow> sent_mail w
      | None \<Rightarrow>
          (case smtp_error E (contact_message cfg E ci (utcnow E (Suc (clock_reads w)))) of
             None \<Rightarrow> sent_mail w @ [contact_message cfg E ci (utcnow E (Suc (clock_reads w)))]
           | Some e \<Rightarrow> sent_mail w))"
  by (simp add: store_lead_run send_contact_email_run split: option.splits)

lemma store_lead_failed:
  assumes "leads_insert_error E (lead_data ci (utcnow E (clock_reads w))) = Some e"
  shows "fst (store_lead cfg E ci w) = Inl e"
    and "leads (snd (store_lead cfg E ci w)) = leads w"
    and "sent_mail (snd (store_lead cfg E ci w)) = sent_mail w"
    and "trace (snd (store_lead cfg E ci w)) = trace w"
  using assms by (simp_all add: store_lead_run)

lemma store_lead_mail_failed:
  assumes "leads_insert_error E (lead_data ci (utcnow E (clock_reads w))) = None"
    and "smtp_error E (contact_message cfg E ci (utcnow E (Suc (clock_reads w)))) = Some e"
  shows "fst (store_lead cfg E ci w) = Inr ()"
    and "leads (snd (store_lead cfg E ci w)) = leads w @ [lead_data ci (utcnow E (clock_reads w))]"
    and "sent_mail (snd (store_lead cfg E ci w)) = sent_mail w"
    and "stdout (snd (store_lead cfg E ci w)) = stdout w @ [''Error sending email: '' @ str_exn e]"
  using assms by (simp_all add: store_lead_run send_contact_email_run)

text \<open>
  A request that reaches the check of line 149 with the phrase in the reply, a keyword in
  the message and an extraction that is not empty ends as \<open>store_lead\<close> ends: with its
  exception, or with the reply and the acknowledgement.
\<close>

lemma chat_lead_stage:
  assumes "store_chat E (request_session_id data) ''user'' (request_message data) w = (Inr (), w1)"
    and "chats_find E (request_session_id data) w1 = (Inr chat_history, w2)"
    and "generate_response cfg E (request_message data) chat_history w2 = (Inr response, w3)"
    and "store_chat E (request_session_id data) ''assistant'' response w3 = (Inr (), w4)"
    and "str_in (lower (CONTACT_PROMPT cfg)) (lower response)"
    and "str_in ''name'' (lower (request_message data)) \<or>
         str_in ''email'' (lower (request_message data)) \<or>
         str_in ''phone'' (lower (request_message data))"
    and "extract_contact_info (request_message data) = Inr info"
    and "info \<noteq> []"
  shows "chat cfg E data w =
           (case store_lead cfg E
                   (dict_setitem ''interest'' ''From chat''
                      (dict_setitem ''session_id'' (request_session_id data) info))
                   (w4\<lparr>trace := trace w4 @ [Call_extract_contact_info (request_message data)]\<rparr>) of
              (Inl e, w') \<Rightarrow> (Inl e, w')
            | (Inr u, w') \<Rightarrow> (Inr (response @ THANK_YOU), w'))"
proof -
  have "spec_extract (request_message data) = info"
    using assms(7) by (simp add: extract_contact_info_eq)
  then show ?thesis
    unfolding chat_steps(1) [OF assms(1-4)] using assms(5,6,8) by (simp add: capture_lead_run)
qed

text \<open>
  The first four steps of a request depend on the collaborators only through the history
  store, the clock and the model service.
\<close>

lemma ex_steps_env:
  assumes "chats_insert_error E = chats_insert_error ex_env"
    and "chats_find_error E = chats_find_error ex_env"
    and "utcnow E = utcnow ex_env"
    and "generate_content E = generate_content ex_env"
  shows "store_chat E ''s1'' ''user'' m ex_world = (Inr (), ex_world1 m)"
    and "chats_find E ''s1'' (ex_world1 m) = (Inr (ex_history m), ex_world1 m)"
    and "generate_response ex_config E m (ex_history m) (ex_world1 m) = (Inr FALLBACK, ex_world3 m)"
    and "store_chat E ''s1'' ''assistant'' FALLBACK (ex_world3 m) = (Inr (), ex_world4 m)"
proof -
  have "store_chat E = store_chat ex_env"
    by (simp add: store_chat_def datetime_utcnow_def chats_insert_one_def assms fun_eq_iff and_then_def)
  moreover have "chats_find E = chats_find ex_env"
    by (simp add: chats_find_def assms fun_eq_iff)
  moreover have "generate_response ex_config E = generate_response ex_config ex_env"
    by (simp add: generate_response_def assms fun_eq_iff)
  ultimately show "store_chat E ''s1'' ''user'' m ex_world = (Inr (), ex_world1 m)"
    and "chats_find E ''s1'' (ex_world1 m) = (Inr (ex_history m), ex_world1 m)"
    and "generate_response ex_config E m (ex_history m) (ex_world1 m) = (Inr FALLBACK, ex_world3 m)"
    and "store_chat E ''s1'' ''assistant'' FALLBACK (ex_world3 m) = (Inr (), ex_world4 m)"
    using ex_steps [of m] by simp_all
qed

text \<open>
  Claim C8, as the code has it. When the handler reaches the check of line 149 with the
  phrase in the reply and a keyword in the message, the extraction is not empty and the
  lead store takes the write, then: the handler returns the reply followed by the fixed
  acknowledgement; the lead store gains one record, which carries the session of the
  request, the interest \<open>From chat\<close>, the flag \<open>followed_up\<close> set to false, the
  extracted fields and the time of the write; and \<open>send_contact_email\<close> is called once,
  with a dictionary that carries the session, the interest and the extracted fields but
  no key \<open>followed_up\<close> (\<open>store_lead\<close> adds the flag and the timestamp to the stored
  copy only). The message it builds shows the name, the email address and the phone
  number (or \<open>Not provided\<close>), the interest and the time of sending, and it is added to
  the sent mail unless the mail transport fails. All of this holds whether or not the
  mail transport fails.
\<close>

theorem lead_record_on_extraction:
  assumes "store_chat E (request_session_id data) ''user'' (request_message data) w = (Inr (), w1)"
    and "chats_find E (request_session_id data) w1 = (Inr chat_history, w2)"
    and "generate_response cfg E (request_message data) chat_history w2 = (Inr response, w3)"
    and "store_chat E (request_session_id data) ''assistant'' response w3 = (Inr (), w4)"
    and trigger: "str_in (lower (CONTACT_PROMPT cfg)) (lower response)"
    and keyword: "str_in ''name'' (lower (request_message data)) \<or>
                  str_in ''email'' (lower (request_message data)) \<or>
                  str_in ''phone'' (lower (request_message data))"
    and extracted: "extract_contact_info (request_message data) = Inr info"
    and nonempty: "info \<noteq> []"
    and inserted: "leads_insert_error E
           (lead_data
              (dict_setitem ''interest'' ''From chat''
                 (dict_setitem ''session_id'' (request_session_id data) info))
              (utcnow E (clock_reads w4))) = None"
  shows "fst (chat cfg E data w) = Inr (response @ THANK_YOU) \<and>
         (\<exists>lead.
            leads (snd (chat cfg E data w)) = leads w @ [lead] \<and>
            map_of lead ''session_id'' = Some (Str (request_session_id data)) \<and>
            map_of lead ''interest'' = Some (Str ''From chat'') \<and>
            map_of lead ''followed_up'' = Some (Bool False) \<and>
            map_of lead ''name'' = map_option Str (map_of info ''name'') \<and>
            map_of lead ''email'' = map_option Str (map_of info ''email'') \<and>
            map_of lead ''phone'' = map_option Str (map_of info ''phone'') \<and>
            map_of lead ''timestamp'' = Some (DateTime (utcnow E (clock_reads w4)))) \<and>
         (\<exists>contact_info.
            notified (calls_of cfg E data w) = [contact_info] \<and>
            map_of contact_info ''session_id'' = Some (request_session_id data) \<and>
            map_of contact_info ''interest'' = Some ''From chat'' \<and>
            map_of contact_info ''followed_up'' = None \<and>
            map_of contact_info ''name'' = map_of info ''name'' \<and>
            map_of contact_info ''email'' = map_of info ''email'' \<and>
            map_of contact_info ''phone'' = map_of info ''phone'' \<and>
            sent_mail (snd (chat cfg E data w)) =
              (case smtp_error E
                      (contact_message cfg E contact_info (utcnow E (Suc (clock_reads w4)))) of
                 None \<Rightarrow>
                   sent_mail w @
                   [contact_message cfg E contact_info (utcnow E (Suc (clock_reads w4)))]
               | Some e \<Rightarrow> sent_mail w) \<and>
            mail_body (contact_message cfg E contact_info (utcnow E (Suc (clock_reads w4)))) =
              ''New contact request:'' @ [NL, NL] @
              ''Name: '' @ dict_get info ''name'' ''Not provided'' @ [NL] @
              ''Email: '' @ dict_get info ''email'' ''Not provided'' @ [NL] @
              ''Phone: '' @ dict_get info ''phone'' ''Not provided'' @ [NL] @
              ''Interest: From chat'' @ [NL, NL] @
              ''Timestamp: '' @ str_datetime E (utcnow E (Suc (clock_reads w4))))"
proof -
  let ?sid = "request_session_id data" and ?msg = "request_message data"
  let ?ci = "dict_setitem ''interest'' ''From chat'' (dict_setitem ''session_id'' ?sid info)"
  let ?w5 = "w4\<lparr>trace := trace w4 @ [Call_extract_contact_info ?msg]\<rparr>"
  let ?lead = "lead_data ?ci (utcnow E (clock_reads w4))"
  note steps = chat_steps [OF assms(1-4)]
  have info: "spec_extract ?msg = info"
    using extracted by (simp add: extract_contact_info_eq)
  have no_flag: "map_of info ''followed_up'' = None"
    using spec_extract_no_key [of "''followed_up''" ?msg] info by simp
  from inserted have ins: "leads_insert_error E (lead_data ?ci (utcnow E (clock_reads ?w5))) = None"
    by simp
  note ok = store_lead_ok [OF ins, of cfg]
  have run: "chat cfg E data w = (Inr (response @ THANK_YOU), snd (store_lead cfg E ?ci ?w5))"
    unfolding steps(1) using trigger keyword nonempty info ok(1)
    by (cases "store_lead cfg E ?ci ?w5") (simp add: capture_lead_run)
  from steps(4) obtain evs where evs: "trace w4 = trace w @ evs" "notified evs = []"
    by blast
  have calls: "notified (calls_of cfg E data w) = [?ci]"
    using run ok(3) evs by (simp add: calls_of_def notified_append)
  have stored: "leads (snd (chat cfg E data w)) = leads w @ [?lead]"
    using run ok(2) steps(2) by simp
  have lead: "map_of ?lead ''session_id'' = Some (Str ?sid)"
    "map_of ?lead ''interest'' = Some (Str ''From chat'')"
    "map_of ?lead ''followed_up'' = Some (Bool False)"
    "map_of ?lead ''name'' = map_option Str (map_of info ''name'')"
    "map_of ?lead ''email'' = map_option Str (map_of info ''email'')"
    "map_of ?lead ''phone'' = map_option Str (map_of info ''phone'')"
    "map_of ?lead ''timestamp'' = Some (DateTime (utcnow E (clock_reads w4)))"
    by (simp_all add: map_of_lead_data map_of_dict_setitem)
  have ci: "map_of ?ci ''session_id'' = Some ?sid"
    "map_of ?ci ''interest'' = Some ''From chat''"
    "map_of ?ci ''followed_up'' = None"
    "map_of ?ci ''name'' = map_of info ''name''"
    "map_of ?ci ''email'' = map_of info ''email''"
    "map_of ?ci ''phone'' = map_of info ''phone''"
    using no_flag by (simp_all add: map_of_dict_setitem)
  let ?mail = "contact_message cfg E ?ci (utcnow E (Suc (clock_reads w4)))"
  have mail: "sent_mail (snd (chat cfg E data w)) =
      (case smtp_error E ?mail of None \<Rightarrow> sent_mail w @ [?mail] | Some e \<Rightarrow> sent_mail w)"
    using run ins steps(3) by (simp add: store_lead_mail split: option.splits)
  have body: "mail_body ?mail =
      ''New contact request:'' @ [NL, NL] @
      ''Name: '' @ dict_get info ''name'' ''Not provided'' @ [NL] @
      ''Email: '' @ dict_get info ''email'' ''Not provided'' @ [NL] @
      ''Phone: '' @ dict_get info ''phone'' ''Not provided'' @ [NL] @
      ''Interest: From chat'' @ [NL, NL] @
      ''Timestamp: '' @ str_datetime E (utcnow E (Suc (clock_reads w4)))"
    using ci by (simp add: contact_message_def dict_get_def)
  from run have "fst (chat cfg E data w) = Inr (response @ THANK_YOU)" by simp
  moreover from stored lead have "\<exists>lead.
            leads (snd (chat cfg E data w)) = leads w @ [lead] \<and>
            map_of lead ''session_id'' = Some (Str (request_session_id data)) \<and>
            map_of lead ''interest'' = Some (Str ''From chat'') \<and>
            map_of lead ''followed_up'' = Some (Bool False) \<and>
            map_of lead ''name'' = map_option Str (map_of info ''name'') \<and>
            map_of lead ''email'' = map_option Str (map_of info ''email'') \<and>
            map_of lead ''phone'' = map_option Str (map_of info ''phone'') \<and>
            map_of lead ''timestamp'' = Some (DateTime (utcnow E (clock_reads w4)))"
    by blast
  moreover from calls ci mail body have "\<exists>contact_info.
            notified (calls_of cfg E data w) = [contact_info] \<and>
            map_of contact_info ''session_id'' = Some (request_session_id data) \<and>
            map_of contact_info ''interest'' = Some ''From chat'' \<and>
            map_of contact_info ''followed_up'' = None \<and>
            map_of contact_info ''name'' = map_of info ''name'' \<and>
            map_of contact_info ''email'' = map_of info ''email'' \<and>
            map_of contact_info ''phone'' = map_of info ''phone'' \<and>
            sent_mail (snd (chat cfg E data w)) =
              (case smtp_error E
                      (contact_message cfg E contact_info (utcnow E (Suc (clock_reads w4)))) of
                 None \<Rightarrow>
                   sent_mail w @
                   [contact_message cfg E contact_info (utcnow E (Suc (clock_reads w4)))]
               | Some e \<Rightarrow> sent_mail w) \<and>
            mail_body (contact_message cfg E contact_info (utcnow E (Suc (clock_reads w4)))) =
              ''New contact request:'' @ [NL, NL] @
              ''Name: '' @ dict_get info ''name'' ''Not provided'' @ [NL] @
              ''Email: '' @ dict_get info ''email'' ''Not provided'' @ [NL] @
              ''Phone: '' @ dict_get info ''phone'' ''Not provided'' @ [NL] @
              ''Interest: From chat'' @ [NL, NL] @
              ''Timestamp: '' @ str_datetime E (utcnow E (Suc (clock_reads w4)))"
    by blast
  ultimately show ?thesis by (intro conjI)
qed

theorem lead_record_on_extraction_witness:
  "store_chat ex_env ''s1'' ''user'' ex_message ex_world = (Inr (), ex_world1 ex_message) \<and>
   chats_find ex_env ''s1'' (ex_world1 ex_message) = (Inr (ex_history ex_message), ex_world1 ex_message) \<and>
   generate_response ex_config ex_env ex_message (ex_history ex_message) (ex_world1 ex_message) =
     (Inr FALLBACK, ex_world3 ex_message) \<and>
   store_chat ex_env ''s1'' ''assistant'' FALLBACK (ex_world3 ex_message) = (Inr (), ex_world4 ex_message) \<and>
   str_in (lower (CONTACT_PROMPT ex_config)) (lower FALLBACK) \<and>
   str_in ''name'' (lower ex_message) \<and>
   extract_contact_info ex_message = Inr [(''name'', ''Bob''), (''email'', ''bob@x.com'')] \<and>
   leads_insert_error ex_env
     (lead_data
        (dict_setitem ''interest'' ''From chat''
           (dict_setitem ''session_id'' ''s1'' [(''name'', ''Bob''), (''email'', ''bob@x.com'')]))
        (utcnow ex_env (clock_reads (ex_world4 ex_message)))) = None \<and>
   fst (chat ex_config ex_env (ex_request ''s1'' ex_message) ex_world) = Inr (FALLBACK @ THANK_YOU) \<and>
   leads (snd (chat ex_config ex_env (ex_request ''s1'' ex_message) ex_world)) =
     [[(''name'', Str ''Bob''), (''email'', Str ''bob@x.com''), (''session_id'', Str ''s1''),
       (''interest'', Str ''From chat''), (''timestamp'', DateTime 2), (''followed_up'', Bool False)]]"
proof -
  note steps = ex_steps [of ex_message]
  have trigger: "str_in (lower (CONTACT_PROMPT ex_config)) (lower FALLBACK)"
    by code_simp
  have name: "str_in ''name'' (lower ex_message)"
    by code_simp
  then have keyword: "str_in ''name'' (lower ex_message) \<or> str_in ''email'' (lower ex_message) \<or>
      str_in ''phone'' (lower ex_message)" by simp
  have extracted: "extract_contact_info ex_message = Inr [(''name'', ''Bob''), (''email'', ''bob@x.com'')]"
    by code_simp
  have nonempty: "[(''name'', ''Bob''), (''email'', ''bob@x.com'')] \<noteq> ([] :: string dict)"
    by simp
  have inserted: "leads_insert_error ex_env
     (lead_data
        (dict_setitem ''interest'' ''From chat''
           (dict_setitem ''session_id'' ''s1'' [(''name'', ''Bob''), (''email'', ''bob@x.com'')]))
        (utcnow ex_env (clock_reads (ex_world4 ex_message)))) = None"
    by (simp add: ex_env_def)
  have stored: "leads (snd (chat ex_config ex_env (ex_request ''s1'' ex_message) ex_world)) =
     [[(''name'', Str ''Bob''), (''email'', Str ''bob@x.com''), (''session_id'', Str ''s1''),
       (''interest'', Str ''From chat''), (''timestamp'', DateTime 2), (''followed_up'', Bool False)]]"
    by code_simp
  from lead_record_on_extraction [of ex_env "ex_request ''s1'' ex_message" ex_world,
      unfolded ex_request_simps, OF steps trigger keyword extracted nonempty inserted]
  have "fst (chat ex_config ex_env (ex_request ''s1'' ex_message) ex_world) = Inr (FALLBACK @ THANK_YOU)"
    by blast
  with steps trigger name extracted inserted stored show ?thesis by (intro conjI)
qed

text \<open>
  The claim as it was stated fails for the notified record: for the message
  \<open>name: Bob\<close>, \<open>email: bob@x.com\<close> of the session \<open>s1\<close>, the dictionary handed to
  \<open>send_contact_email\<close> has no key \<open>followed_up\<close>, and the mail that is sent shows the
  name, the email address, the phone number, the interest and a timestamp only.
\<close>

theorem notified_record_has_no_flag:
  "notified (calls_of ex_config ex_env (ex_request ''s1'' ex_message) ex_world) = [ex_contact] \<and>
   dict_getitem ex_contact ''followed_up'' = Inl (KeyError ''followed_up'') \<and>
   map mail_body (sent_mail (snd (chat ex_config ex_env (ex_request ''s1'' ex_message) ex_world))) =
     [''New contact request:'' @ [NL, NL] @
      ''Name: Bob'' @ [NL] @
      ''Email: bob@x.com'' @ [NL] @
      ''Phone: Not provided'' @ [NL] @
      ''Interest: From chat'' @ [NL, NL] @
      ''Timestamp: 2024-01-01 00:00:00'']"
proof -
  have "notified (calls_of ex_config ex_env (ex_request ''s1'' ex_message) ex_world) = [ex_contact]"
    by code_simp
  moreover have "dict_getitem ex_contact ''followed_up'' = Inl (KeyError ''followed_up'')"
    by code_simp
  moreover have
    "map mail_body (sent_mail (snd (chat ex_config ex_env (ex_request ''s1'' ex_message) ex_world))) =
     [''New contact request:'' @ [NL, NL] @
      ''Name: Bob'' @ [NL] @
      ''Email: bob@x.com'' @ [NL] @
      ''Phone: Not provided'' @ [NL] @
      ''Interest: From chat'' @ [NL, NL] @
      ''Timestamp: 2024-01-01 00:00:00'']"
    by code_simp
  ultimately show ?thesis by (intro conjI)
qed

section \<open>Failures of the stores and of the mail transport\<close>

text \<open>
  Claim C2, as the code has it. \<open>store_chat\<close> and \<open>store_lead\<close> do not catch what the
  insert raises, and neither does the handler. An exception of the history store, on the
  user's turn or on the reply, leaves the handler as that exception, and no reply is
  returned. An exception of the lead store leaves \<open>store_lead\<close> before
  \<open>send_contact_email\<close> is called, and leaves the handler too: the request ends with the
  exception instead of a reply, nothing is stored and nothing is sent. Only the failure
  of the mail transport is caught: it is printed, \<open>store_lead\<close> returns normally, the
  lead written before stays in the store, and the handler returns the reply with the
  acknowledgement. The first two parts are about the history store, the next two about
  \<open>store_lead\<close> on its own, and the last two about a whole request that reaches
  \<open>store_lead\<close>.
\<close>

theorem store_failure_aborts_mail_failure_does_not:
  "(fst (store_chat Ea (request_session_id da) ''user'' (request_message da) wa) = Inl ea \<longrightarrow>
      fst (chat ca Ea da wa) = Inl ea) \<and>
   (store_chat Eb (request_session_id db) ''user'' (request_message db) wb = (Inr (), wu) \<and>
    chats_find Eb (request_session_id db) wu = (Inr hb, wh) \<and>
    generate_response cb Eb (request_message db) hb wh = (Inr response, wr) \<and>
    fst (store_chat Eb (request_session_id db) ''assistant'' response wr) = Inl eb \<longrightarrow>
      fst (chat cb Eb db wb) = Inl eb) \<and>
   (leads_insert_error Ec (lead_data cic (utcnow Ec (clock_reads wc))) = Some ec \<longrightarrow>
      fst (store_lead cc Ec cic wc) = Inl ec \<and>
      leads (snd (store_lead cc Ec cic wc)) = leads wc \<and>
      sent_mail (snd (store_lead cc Ec cic wc)) = sent_mail wc \<and>
      trace (snd (store_lead cc Ec cic wc)) = trace wc) \<and>
   (leads_insert_error Ed (lead_data cid (utcnow Ed (clock_reads wd))) = None \<and>
    smtp_error Ed (contact_message cd Ed cid (utcnow Ed (Suc (clock_reads wd)))) = Some ed \<longrightarrow>
      fst (store_lead cd Ed cid wd) = Inr () \<and>
      leads (snd (store_lead cd Ed cid wd)) =
        leads wd @ [lead_data cid (utcnow Ed (clock_reads wd))] \<and>
      sent_mail (snd (store_lead cd Ed cid wd)) = sent_mail wd \<and>
      stdout (snd (store_lead cd Ed cid wd)) =
        stdout wd @ [''Error sending email: '' @ str_exn ed]) \<and>
   (store_chat El (request_session_id dl) ''user'' (request_message dl) wl = (Inr (), wlu) \<and>
    chats_find El (request_session_id dl) wlu = (Inr hl, wlh) \<and>
    generate_response cl El (request_message dl) hl wlh = (Inr rl, wlr) \<and>
    store_chat El (request_session_id dl) ''assistant'' rl wlr = (Inr (), wls) \<and>
    str_in (lower (CONTACT_PROMPT cl)) (lower rl) \<and>
    (str_in ''name'' (lower (request_message dl)) \<or>
     str_in ''email'' (lower (request_message dl)) \<or>
     str_in ''phone'' (lower (request_message dl))) \<and>
    extract_contact_info (request_message dl) = Inr infol \<and>
    infol \<noteq> [] \<and>
    leads_insert_error El
      (lead_data
         (dict_setitem ''interest'' ''From chat''
            (dict_setitem ''session_id'' (request_session_id dl) infol))
         (utcnow El (clock_reads wls))) = Some el \<longrightarrow>
      fst (chat cl El dl wl) = Inl el \<and>
      leads (snd (chat cl El dl wl)) = leads wl \<and>
      sent_mail (snd (chat cl El dl wl)) = sent_mail wl \<and>
      notified (calls_of cl El dl wl) = []) \<and>
   (store_chat Em (request_session_id dm) ''user'' (request_message dm) wm = (Inr (), wmu) \<and>
    chats_find Em (request_session_id dm) wmu = (Inr hm, wmh) \<and>
    generate_response cm Em (request_message dm) hm wmh = (Inr rm, wmr) \<and>
    store_chat Em (request_session_id dm) ''assistant'' rm wmr = (Inr (), wms) \<and>
    str_in (lower (CONTACT_PROMPT cm)) (lower rm) \<and>
    (str_in ''name'' (lower (request_message dm)) \<or>
     str_in ''email'' (lower (request_message dm)) \<or>
     str_in ''phone'' (lower (request_message dm))) \<and>
    extract_contact_info (request_message dm) = Inr infom \<and>
    infom \<noteq> [] \<and>
    leads_insert_error Em
      (lead_data
         (dict_setitem ''interest'' ''From chat''
            (dict_setitem ''session_id'' (request_session_id dm) infom))
         (utcnow Em (clock_reads wms))) = None \<and>
    smtp_error Em
      (contact_message cm Em
         (dict_setitem ''interest'' ''From chat''
            (dict_setitem ''session_id'' (request_session_id dm) infom))
         (utcnow Em (Suc (clock_reads wms)))) = Some em \<longrightarrow>
      fst (chat cm Em dm wm) = Inr (rm @ THANK_YOU) \<and>
      leads (snd (chat cm Em dm wm)) =
        leads wm @
        [lead_data
           (dict_setitem ''interest'' ''From chat''
              (dict_setitem ''session_id'' (request_session_id dm) infom))
           (utcnow Em (clock_reads wms))] \<and>
      sent_mail (snd (chat cm Em dm wm)) = sent_mail wm \<and>
      stdout (snd (chat cm Em dm wm)) = stdout wms @ [''Error sending email: '' @ str_exn em])"
proof (intro conjI impI)
  assume "fst (store_chat Ea (request_session_id da) ''user'' (request_message da) wa) = Inl ea"
  then show "fst (chat ca Ea da wa) = Inl ea"
    by (cases "store_chat Ea (request_session_id da) ''user'' (request_message da) wa")
      (simp add: chat_unfold)
next
  assume a: "store_chat Eb (request_session_id db) ''user'' (request_message db) wb = (Inr (), wu) \<and>
    chats_find Eb (request_session_id db) wu = (Inr hb, wh) \<and>
    generate_response cb Eb (request_message db) hb wh = (Inr response, wr) \<and>
    fst (store_chat Eb (request_session_id db) ''assistant'' response wr) = Inl eb"
  then show "fst (chat cb Eb db wb) = Inl eb"
    by (cases "store_chat Eb (request_session_id db) ''assistant'' response wr")
      (simp add: chat_unfold)
next
  assume a: "leads_insert_error Ec (lead_data cic (utcnow Ec (clock_reads wc))) = Some ec"
  then show "fst (store_lead cc Ec cic wc) = Inl ec" by (simp add: store_lead_run)
  from a show "leads (snd (store_lead cc Ec cic wc)) = leads wc" by (simp add: store_lead_run)
  from a show "sent_mail (snd (store_lead cc Ec cic wc)) = sent_mail wc" by (simp add: store_lead_run)
  from a show "trace (snd (store_lead cc Ec cic wc)) = trace wc" by (simp add: store_lead_run)
next
  assume a: "leads_insert_error Ed (lead_data cid (utcnow Ed (clock_reads wd))) = None \<and>
    smtp_error Ed (contact_message cd Ed cid (utcnow Ed (Suc (clock_reads wd)))) = Some ed"
  then show "fst (store_lead cd Ed cid wd) = Inr ()"
    by (simp add: store_lead_run send_contact_email_run)
  from a show "leads (snd (store_lead cd Ed cid wd)) =
        leads wd @ [lead_data cid (utcnow Ed (clock_reads wd))]"
    by (simp add: store_lead_run send_contact_email_run)
  from a show "sent_mail (snd (store_lead cd Ed cid wd)) = sent_mail wd"
    by (simp add: store_lead_run send_contact_email_run)
  from a show "stdout (snd (store_lead cd Ed cid wd)) =
        stdout wd @ [''Error sending email: '' @ str_exn ed]"
    by (simp add: store_lead_run send_contact_email_run)
next
  let ?ci = "dict_setitem ''interest'' ''From chat''
               (dict_setitem ''session_id'' (request_session_id dl) infol)"
  let ?w5 = "wls\<lparr>trace := trace wls @ [Call_extract_contact_info (request_message dl)]\<rparr>"
  assume a: "store_chat El (request_session_id dl) ''user'' (request_message dl) wl = (Inr (), wlu) \<and>
    chats_find El (request_session_id dl) wlu = (Inr hl, wlh) \<and>
    generate_response cl El (request_message dl) hl wlh = (Inr rl, wlr) \<and>
    store_chat El (request_session_id dl) ''assistant'' rl wlr = (Inr (), wls) \<and>
    str_in (lower (CONTACT_PROMPT cl)) (lower rl) \<and>
    (str_in ''name'' (lower (request_message dl)) \<or>
     str_in ''email'' (lower (request_message dl)) \<or>
     str_in ''phone'' (lower (request_message dl))) \<and>
    extract_contact_info (request_message dl) = Inr infol \<and>
    infol \<noteq> [] \<and>
    leads_insert_error El (lead_data ?ci (utcnow El (clock_reads wls))) = Some el"
  then have steps: "store_chat El (request_session_id dl) ''user'' (request_message dl) wl = (Inr (), wlu)"
    "chats_find El (request_session_id dl) wlu = (Inr hl, wlh)"
    "generate_response cl El (request_message dl) hl wlh = (Inr rl, wlr)"
    "store_chat El (request_session_id dl) ''assistant'' rl wlr = (Inr (), wls)"
    by simp_all
  note before = chat_steps(2-4) [OF steps]
  from a have "leads_insert_error El (lead_data ?ci (utcnow El (clock_reads ?w5))) = Some el"
    by simp
  note failed = store_lead_failed [OF this, of cl]
  from a have checks: "str_in (lower (CONTACT_PROMPT cl)) (lower rl)"
    "str_in ''name'' (lower (request_message dl)) \<or>
     str_in ''email'' (lower (request_message dl)) \<or>
     str_in ''phone'' (lower (request_message dl))"
    "extract_contact_info (request_message dl) = Inr infol" "infol \<noteq> []"
    by simp_all
  note stage = chat_lead_stage [OF steps checks]
  have run: "chat cl El dl wl = (Inl el, snd (store_lead cl El ?ci ?w5))"
    unfolding stage using failed(1) by (cases "store_lead cl El ?ci ?w5") simp
  from run show "fst (chat cl El dl wl) = Inl el" by simp
  from run failed(2) before(1) show "leads (snd (chat cl El dl wl)) = leads wl" by simp
  from run failed(3) before(2) show "sent_mail (snd (chat cl El dl wl)) = sent_mail wl" by simp
  from before(3) obtain evs where "trace wls = trace wl @ evs" "notified evs = []" by blast
  with run failed(4) show "notified (calls_of cl El dl wl) = []"
    by (simp add: calls_of_def notified_append)
next
  let ?ci = "dict_setitem ''interest'' ''From chat''
               (dict_setitem ''session_id'' (request_session_id dm) infom)"
  let ?w5 = "wms\<lparr>trace := trace wms @ [Call_extract_contact_info (request_message dm)]\<rparr>"
  assume a: "store_chat Em (request_session_id dm) ''user'' (request_message dm) wm = (Inr (), wmu) \<and>
    chats_find Em (request_session_id dm) wmu = (Inr hm, wmh) \<and>
    generate_response cm Em (request_message dm) hm wmh = (Inr rm, wmr) \<and>
    store_chat Em (request_session_id dm) ''assistant'' rm wmr = (Inr (), wms) \<and>
    str_in (lower (CONTACT_PROMPT cm)) (lower rm) \<and>
    (str_in ''name'' (lower (request_message dm)) \<or>
     str_in ''email'' (lower (request_message dm)) \<or>
     str_in ''phone'' (lower (request_message dm))) \<and>
    extract_contact_info (request_message dm) = Inr infom \<and>
    infom \<noteq> [] \<and>
    leads_insert_error Em (lead_data ?ci (utcnow Em (clock_reads wms))) = None \<and>
    smtp_error Em (contact_message cm Em ?ci (utcnow Em (Suc (clock_reads wms)))) = Some em"
  then have steps: "store_chat Em (request_session_id dm) ''user'' (request_message dm) wm = (Inr (), wmu)"
    "chats_find Em (request_session_id dm) wmu = (Inr hm, wmh)"
    "generate_response cm Em (request_message dm) hm wmh = (Inr rm, wmr)"
    "store_chat Em (request_session_id dm) ''assistant'' rm wmr = (Inr (), wms)"
    by simp_all
  note before = chat_steps(2-4) [OF steps]
  from a have "leads_insert_error Em (lead_data ?ci (utcnow Em (clock_reads ?w5))) = None"
    and "smtp_error Em (contact_message cm Em ?ci (utcnow Em (Suc (clock_reads ?w5)))) = Some em"
    by simp_all
  note caught = store_lead_mail_failed [OF this]
  from a have checks: "str_in (lower (CONTACT_PROMPT cm)) (lower rm)"
    "str_in ''name'' (lower (request_message dm)) \<or>
     str_in ''email'' (lower (request_message dm)) \<or>
     str_in ''phone'' (lower (request_message dm))"
    "extract_contact_info (request_message dm) = Inr infom" "infom \<noteq> []"
    by simp_all
  note stage = chat_lead_stage [OF steps checks]
  have run: "chat cm Em dm wm = (Inr (rm @ THANK_YOU), snd (store_lead cm Em ?ci ?w5))"
    unfolding stage using caught(1) by (cases "store_lead cm Em ?ci ?w5") simp
  from run show "fst (chat cm Em dm wm) = Inr (rm @ THANK_YOU)" by simp
  from run caught(2) before(1) show "leads (snd (chat cm Em dm wm)) =
        leads wm @ [lead_data ?ci (utcnow Em (clock_reads wms))]" by simp
  from run caught(3) before(2) show "sent_mail (snd (chat cm Em dm wm)) = sent_mail wm" by simp
  from run caught(4) show "stdout (snd (chat cm Em dm wm)) =
        stdout wms @ [''Error sending email: '' @ str_exn em]" by simp
qed

theorem store_failure_aborts_mail_failure_does_not_witness:
  "fst (store_chat ex_env_history_down ''s1'' ''user'' ''Hi'' ex_world) = Inl ex_failure \<and>
   fst (chat ex_config ex_env_history_down (ex_request ''s1'' ''Hi'') ex_world) = Inl ex_failure \<and>
   store_chat ex_env_reply_not_stored ''s1'' ''user'' ''Hi'' ex_world = (Inr (), ex_world1 ''Hi'') \<and>
   chats_find ex_env_reply_not_stored ''s1'' (ex_world1 ''Hi'') = (Inr (ex_history ''Hi''), ex_world1 ''Hi'') \<and>
   generate_response ex_config ex_env_reply_not_stored ''Hi'' (ex_history ''Hi'') (ex_world1 ''Hi'') =
     (Inr FALLBACK, ex_world3 ''Hi'') \<and>
   fst (store_chat ex_env_reply_not_stored ''s1'' ''assistant'' FALLBACK (ex_world3 ''Hi'')) = Inl ex_failure \<and>
   fst (chat ex_config ex_env_reply_not_stored (ex_request ''s1'' ''Hi'') ex_world) = Inl ex_failure \<and>
   leads_insert_error ex_env_leads_down (lead_data ex_contact (utcnow ex_env_leads_down (clock_reads ex_world))) =
     Some ex_failure \<and>
   fst (store_lead ex_config ex_env_leads_down ex_contact ex_world) = Inl ex_failure \<and>
   leads (snd (store_lead ex_config ex_env_leads_down ex_contact ex_world)) = [] \<and>
   sent_mail (snd (store_lead ex_config ex_env_leads_down ex_contact ex_world)) = [] \<and>
   trace (snd (store_lead ex_config ex_env_leads_down ex_contact ex_world)) = [] \<and>
   leads_insert_error ex_env_mail_down (lead_data ex_contact (utcnow ex_env_mail_down (clock_reads ex_world))) =
     None \<and>
   smtp_error ex_env_mail_down
     (contact_message ex_config ex_env_mail_down ex_contact
        (utcnow ex_env_mail_down (Suc (clock_reads ex_world)))) = Some ex_failure \<and>
   fst (store_lead ex_config ex_env_mail_down ex_contact ex_world) = Inr () \<and>
   leads (snd (store_lead ex_config ex_env_mail_down ex_contact ex_world)) =
     [lead_data ex_contact 0] \<and>
   sent_mail (snd (store_lead ex_config ex_env_mail_down ex_contact ex_world)) = [] \<and>
   stdout (snd (store_lead ex_config ex_env_mail_down ex_contact ex_world)) =
     [''Error sending email: service unavailable''] \<and>
   store_chat ex_env_leads_down ''s1'' ''user'' ex_message ex_world = (Inr (), ex_world1 ex_message) \<and>
   chats_find ex_env_leads_down ''s1'' (ex_world1 ex_message) =
     (Inr (ex_history ex_message), ex_world1 ex_message) \<and>
   generate_response ex_config ex_env_leads_down ex_message (ex_history ex_message) (ex_world1 ex_message) =
     (Inr FALLBACK, ex_world3 ex_message) \<and>
   store_chat ex_env_leads_down ''s1'' ''assistant'' FALLBACK (ex_world3 ex_message) =
     (Inr (), ex_world4 ex_message) \<and>
   str_in (lower (CONTACT_PROMPT ex_config)) (lower FALLBACK) \<and>
   str_in ''name'' (lower ex_message) \<and>
   extract_contact_info ex_message = Inr [(''name'', ''Bob''), (''email'', ''bob@x.com'')] \<and>
   dict_setitem ''interest'' ''From chat''
     (dict_setitem ''session_id'' ''s1'' [(''name'', ''Bob''), (''email'', ''bob@x.com'')]) = ex_contact \<and>
   leads_insert_error ex_env_leads_down
     (lead_data ex_contact (utcnow ex_env_leads_down (clock_reads (ex_world4 ex_message)))) =
     Some ex_failure \<and>
   fst (chat ex_config ex_env_leads_down (ex_request ''s1'' ex_message) ex_world) = Inl ex_failure \<and>
   leads (snd (chat ex_config ex_env_leads_down (ex_request ''s1'' ex_message) ex_world)) = [] \<and>
   sent_mail (snd (chat ex_config ex_env_leads_down (ex_request ''s1'' ex_message) ex_world)) = [] \<and>
   notified (calls_of ex_config ex_env_leads_down (ex_request ''s1'' ex_message) ex_world) = [] \<and>
   store_chat ex_env_mail_down ''s1'' ''user'' ex_message ex_world = (Inr (), ex_world1 ex_message) \<and>
   chats_find ex_env_mail_down ''s1'' (ex_world1 ex_message) =
     (Inr (ex_history ex_message), ex_world1 ex_message) \<and>
   generate_response ex_config ex_env_mail_down ex_message (ex_history ex_message) (ex_world1 ex_message) =
     (Inr FALLBACK, ex_world3 ex_message) \<and>
   store_chat ex_env_mail_down ''s1'' ''assistant'' FALLBACK (ex_world3 ex_message) =
     (Inr (), ex_world4 ex_message) \<and>
   leads_insert_error ex_env_mail_down
     (lead_data ex_contact (utcnow ex_env_mail_down (clock_reads (ex_world4 ex_message)))) = None \<and>
   smtp_error ex_env_mail_down
     (contact_message ex_config ex_env_mail_down ex_contact
        (utcnow ex_env_mail_down (Suc (clock_reads (ex_world4 ex_message))))) = Some ex_failure \<and>
   fst (chat ex_config ex_env_mail_down (ex_request ''s1'' ex_message) ex_world) =
     Inr (FALLBACK @ THANK_YOU) \<and>
   leads (snd (chat ex_config ex_env_mail_down (ex_request ''s1'' ex_message) ex_world)) =
     [lead_data ex_contact (utcnow ex_env_mail_down (clock_reads (ex_world4 ex_message)))] \<and>
   sent_mail (snd (chat ex_config ex_env_mail_down (ex_request ''s1'' ex_message) ex_world)) = [] \<and>
   stdout (snd (chat ex_config ex_env_mail_down (ex_request ''s1'' ex_message) ex_world)) =
     stdout (ex_world4 ex_message) @ [''Error sending email: service unavailable'']"
proof -
  note inst = store_failure_aborts_mail_failure_does_not
    [where Ea = ex_env_history_down and da = "ex_request ''s1'' ''Hi''" and wa = ex_world
       and ea = ex_failure and ca = ex_config
       and Eb = ex_env_reply_not_stored and db = "ex_request ''s1'' ''Hi''" and wb = ex_world
       and wu = "ex_world1 ''Hi''" and hb = "ex_history ''Hi''" and wh = "ex_world1 ''Hi''"
       and cb = ex_config and response = FALLBACK and wr = "ex_world3 ''Hi''" and eb = ex_failure
       and Ec = ex_env_leads_down and cic = ex_contact and wc = ex_world and ec = ex_failure
       and cc = ex_config
       and Ed = ex_env_mail_down and cid = ex_contact and wd = ex_world and ed = ex_failure
       and cd = ex_config
       and El = ex_env_leads_down and dl = "ex_request ''s1'' ex_message" and wl = ex_world
       and wlu = "ex_world1 ex_message" and hl = "ex_history ex_message"
       and wlh = "ex_world1 ex_message" and cl = ex_config and rl = FALLBACK
       and wlr = "ex_world3 ex_message" and wls = "ex_world4 ex_message"
       and infol = "[(''name'', ''Bob''), (''email'', ''bob@x.com'')]" and el = ex_failure
       and Em = ex_env_mail_down and dm = "ex_request ''s1'' ex_message" and wm = ex_world
       and wmu = "ex_world1 ex_message" and hm = "ex_history ex_message"
       and wmh = "ex_world1 ex_message" and cm = ex_config and rm = FALLBACK
       and wmr = "ex_world3 ex_message" and wms = "ex_world4 ex_message"
       and infom = "[(''name'', ''Bob''), (''email'', ''bob@x.com'')]" and em = ex_failure,
     unfolded ex_request_simps]
  have a1: "fst (store_chat ex_env_history_down ''s1'' ''user'' ''Hi'' ex_world) = Inl ex_failure"
    by (simp add: store_chat_run ex_env_history_down_def)
  have same: "chats_insert_error ex_env_reply_not_stored (chat_data sid ''user'' m t) = None"
    "chats_find_error ex_env_reply_not_stored = chats_find_error ex_env"
    "utcnow ex_env_reply_not_stored = utcnow ex_env"
    "generate_content ex_env_reply_not_stored = generate_content ex_env" for sid m t
    by (simp_all add: ex_env_reply_not_stored_def chat_data_def)
  have a2: "store_chat ex_env_reply_not_stored ''s1'' ''user'' ''Hi'' ex_world = (Inr (), ex_world1 ''Hi'')"
    using ex_steps(1) [of "''Hi''"] by (simp add: store_chat_run same ex_env_def)
  have a3: "chats_find ex_env_reply_not_stored ''s1'' (ex_world1 ''Hi'') =
      (Inr (ex_history ''Hi''), ex_world1 ''Hi'')"
    using ex_steps(2) [of "''Hi''"] by (simp add: chats_find_def same)
  have a4: "generate_response ex_config ex_env_reply_not_stored ''Hi'' (ex_history ''Hi'') (ex_world1 ''Hi'') =
     (Inr FALLBACK, ex_world3 ''Hi'')"
    using ex_steps(3) [of "''Hi''"] by (simp add: generate_response_def same)
  have a5: "fst (store_chat ex_env_reply_not_stored ''s1'' ''assistant'' FALLBACK (ex_world3 ''Hi'')) =
      Inl ex_failure"
    by (simp add: store_chat_run ex_env_reply_not_stored_def chat_data_def)
  have a6: "leads_insert_error ex_env_leads_down
      (lead_data ex_contact (utcnow ex_env_leads_down (clock_reads ex_world))) = Some ex_failure"
    by (simp add: ex_env_leads_down_def)
  have a7: "leads_insert_error ex_env_mail_down
      (lead_data ex_contact (utcnow ex_env_mail_down (clock_reads ex_world))) = None"
    by (simp add: ex_env_mail_down_def ex_env_def)
  have a8: "smtp_error ex_env_mail_down
     (contact_message ex_config ex_env_mail_down ex_contact
        (utcnow ex_env_mail_down (Suc (clock_reads ex_world)))) = Some ex_failure"
    by (simp add: ex_env_mail_down_def)
  have start: "leads ex_world = []" "sent_mail ex_world = []" "trace ex_world = []"
    "stdout ex_world = []" "clock_reads ex_world = 0" "utcnow ex_env_mail_down 0 = 0"
    "str_exn ex_failure = ''service unavailable''"
    by (simp_all add: ex_world_def ex_env_mail_down_def ex_env_def ex_failure_def)
  from inst a1 a2 a3 a4 a5 a6 a7 a8 have store_level:
    "fst (chat ex_config ex_env_history_down (ex_request ''s1'' ''Hi'') ex_world) = Inl ex_failure"
    "fst (chat ex_config ex_env_reply_not_stored (ex_request ''s1'' ''Hi'') ex_world) = Inl ex_failure"
    "fst (store_lead ex_config ex_env_leads_down ex_contact ex_world) = Inl ex_failure"
    "leads (snd (store_lead ex_config ex_env_leads_down ex_contact ex_world)) = []"
    "sent_mail (snd (store_lead ex_config ex_env_leads_down ex_contact ex_world)) = []"
    "trace (snd (store_lead ex_config ex_env_leads_down ex_contact ex_world)) = []"
    "fst (store_lead ex_config ex_env_mail_down ex_contact ex_world) = Inr ()"
    "leads (snd (store_lead ex_config ex_env_mail_down ex_contact ex_world)) = [lead_data ex_contact 0]"
    "sent_mail (snd (store_lead ex_config ex_env_mail_down ex_contact ex_world)) = []"
    "stdout (snd (store_lead ex_config ex_env_mail_down ex_contact ex_world)) =
       [''Error sending email: service unavailable'']"
    by (simp_all add: start)
  note l = ex_steps_env [of ex_env_leads_down ex_message]
  have l_steps:
    "store_chat ex_env_leads_down ''s1'' ''user'' ex_message ex_world = (Inr (), ex_world1 ex_message)"
    "chats_find ex_env_leads_down ''s1'' (ex_world1 ex_message) =
       (Inr (ex_history ex_message), ex_world1 ex_message)"
    "generate_response ex_config ex_env_leads_down ex_message (ex_history ex_message)
       (ex_world1 ex_message) = (Inr FALLBACK, ex_world3 ex_message)"
    "store_chat ex_env_leads_down ''s1'' ''assistant'' FALLBACK (ex_world3 ex_message) =
       (Inr (), ex_world4 ex_message)"
    by (rule l; simp add: ex_env_leads_down_def)+
  note m = ex_steps_env [of ex_env_mail_down ex_message]
  have m_steps:
    "store_chat ex_env_mail_down ''s1'' ''user'' ex_message ex_world = (Inr (), ex_world1 ex_message)"
    "chats_find ex_env_mail_down ''s1'' (ex_world1 ex_message) =
       (Inr (ex_history ex_message), ex_world1 ex_message)"
    "generate_response ex_config ex_env_mail_down ex_message (ex_history ex_message)
       (ex_world1 ex_message) = (Inr FALLBACK, ex_world3 ex_message)"
    "store_chat ex_env_mail_down ''s1'' ''assistant'' FALLBACK (ex_world3 ex_message) =
       (Inr (), ex_world4 ex_message)"
    by (rule m; simp add: ex_env_mail_down_def)+
  have trigger: "str_in (lower (CONTACT_PROMPT ex_config)) (lower FALLBACK)"
    by code_simp
  have keyword: "str_in ''name'' (lower ex_message)"
    by code_simp
  have extracted: "extract_contact_info ex_message = Inr [(''name'', ''Bob''), (''email'', ''bob@x.com'')]"
    by code_simp
  have contact: "dict_setitem ''interest'' ''From chat''
     (dict_setitem ''session_id'' ''s1'' [(''name'', ''Bob''), (''email'', ''bob@x.com'')]) = ex_contact"
    by (simp add: ex_contact_def)
  have l_down: "leads_insert_error ex_env_leads_down
     (lead_data ex_contact (utcnow ex_env_leads_down (clock_reads (ex_world4 ex_message)))) =
     Some ex_failure"
    by (simp add: ex_env_leads_down_def)
  have m_stored: "leads_insert_error ex_env_mail_down
     (lead_data ex_contact (utcnow ex_env_mail_down (clock_reads (ex_world4 ex_message)))) = None"
    by (simp add: ex_env_mail_down_def ex_env_def)
  have m_down: "smtp_error ex_env_mail_down
     (contact_message ex_config ex_env_mail_down ex_contact
        (utcnow ex_env_mail_down (Suc (clock_reads (ex_world4 ex_message))))) = Some ex_failure"
    by (simp add: ex_env_mail_down_def)
  from inst l_steps trigger keyword extracted l_down have l_handler:
    "fst (chat ex_config ex_env_leads_down (ex_request ''s1'' ex_message) ex_world) = Inl ex_failure"
    "leads (snd (chat ex_config ex_env_leads_down (ex_request ''s1'' ex_message) ex_world)) = []"
    "sent_mail (snd (chat ex_config ex_env_leads_down (ex_request ''s1'' ex_message) ex_world)) = []"
    "notified (calls_of ex_config ex_env_leads_down (ex_request ''s1'' ex_message) ex_world) = []"
    unfolding contact by (simp_all add: start)
  from inst m_steps trigger keyword extracted m_stored m_down have m_handler:
    "fst (chat ex_config ex_env_mail_down (ex_request ''s1'' ex_message) ex_world) =
       Inr (FALLBACK @ THANK_YOU)"
    "leads (snd (chat ex_config ex_env_mail_down (ex_request ''s1'' ex_message) ex_world)) =
       [lead_data ex_contact (utcnow ex_env_mail_down (clock_reads (ex_world4 ex_message)))]"
    "sent_mail (snd (chat ex_config ex_env_mail_down (ex_request ''s1'' ex_message) ex_world)) = []"
    "stdout (snd (chat ex_config ex_env_mail_down (ex_request ''s1'' ex_message) ex_world)) =
       stdout (ex_world4 ex_message) @ [''Error sending email: service unavailable'']"
    unfolding contact by (simp_all add: start)
  from a1 a2 a3 a4 a5 a6 a7 a8 store_level l_steps trigger keyword extracted contact l_down l_handler
    m_steps m_stored m_down m_handler
  show ?thesis by (intro conjI)
qed



text \<open>
  The claim as it was stated fails: when the history store rejects the reply, or the lead
  store rejects the lead, the handler ends with the exception instead of a reply, and in
  the second case \<open>send_contact_email\<close> is never called.
\<close>

theorem reply_lost_when_store_fails:
  "fst (chat ex_config ex_env_reply_not_stored (ex_request ''s1'' ''Hi'') ex_world) = Inl ex_failure \<and>
   fst (chat ex_config ex_env_leads_down (ex_request ''s1'' ex_message) ex_world) = Inl ex_failure \<and>
   notified (calls_of ex_config ex_env_leads_down (ex_request ''s1'' ex_message) ex_world) = [] \<and>
   sent_mail (snd (chat ex_config ex_env_leads_down (ex_request ''s1'' ex_message) ex_world)) = []"
proof -
  have "fst (chat ex_config ex_env_reply_not_stored (ex_request ''s1'' ''Hi'') ex_world) = Inl ex_failure"
    by code_simp
  moreover have
    "fst (chat ex_config ex_env_leads_down (ex_request ''s1'' ex_message) ex_world) = Inl ex_failure"
    by code_simp
  moreover have
    "notified (calls_of ex_config ex_env_leads_down (ex_request ''s1'' ex_message) ex_world) = []"
    by code_simp
  moreover have
    "sent_mail (snd (chat ex_config ex_env_leads_down (ex_request ''s1'' ex_message) ex_world)) = []"
    by code_simp
  ultimately show ?thesis by (intro conjI)
qed

end
